theory Spec2Isabelle
  imports Main "HOL-Library.AList" "HOL-Library.Multiset"
begin

section \<open>The parameter tree\<close>

text \<open>
  Modelled from the spec: the type \<^verbatim>\<open>ZmesParameter\<close> is declared in the external
  package \<^verbatim>\<open>zmes-parser\<close>. A node has a name, an optional value and an optional
  ordered sequence of child nodes. The value is a string, a number, or a
  \<^verbatim>\<open>Float64Array\<close>; \<open>VBoolean\<close> and \<open>VOther\<close> stand for every other defined
  value, which the conversion code only ever tests with \<^verbatim>\<open>typeof\<close>,
  \<^verbatim>\<open>instanceof\<close> and \<^verbatim>\<open>!== undefined\<close>. An absent (\<^verbatim>\<open>undefined\<close>) value or
  child list is \<open>None\<close>. The selector of the value is \<open>valueOf\<close>. The numbers
  are never computed with, only passed on, so their type is the parameter
  \<open>'n\<close>. Strings are byte lists (UTF-8). Nodes are compared by structure: two
  nodes with the same name, value and children are the same value here, where
  JavaScript would tell the two objects apart.
\<close>

datatype 'n zvalue =
    VString string
  | VNumber 'n
  | VBoolean bool
  | VFloat64Array "'n list"
  | VOther

datatype 'n ZmesParameter =
  ZmesParameter (name: string) (valueOf: "'n zvalue option")
    (children: "'n ZmesParameter list option")

text \<open>\<^verbatim>\<open>children.find((child) => child.name === name)\<close>\<close>

definition findParameter ::
  "'n ZmesParameter list \<Rightarrow> string \<Rightarrow> 'n ZmesParameter option" where
  "findParameter chs nm = List.find (\<lambda>child. name child = nm) chs"

text \<open>
  The recursive search. \<open>findParameterDeep_loop\<close> is the \<^verbatim>\<open>for (const child of
  parameter.children)\<close> loop, which returns from the function at the first child
  whose search succeeds.
\<close>

fun findParameterDeep ::
    "'n ZmesParameter \<Rightarrow> string \<Rightarrow> 'n ZmesParameter option"
  and findParameterDeep_loop ::
    "'n ZmesParameter list \<Rightarrow> string \<Rightarrow> 'n ZmesParameter option"
where
  "findParameterDeep (ZmesParameter pname pvalue pchildren) nm =
     (if pname = nm then Some (ZmesParameter pname pvalue pchildren)
      else (case pchildren of
              Some chs \<Rightarrow> findParameterDeep_loop chs nm
            | None \<Rightarrow> None))"
| "findParameterDeep_loop [] nm = None"
| "findParameterDeep_loop (child # rest) nm =
     (case findParameterDeep child nm of
        Some found \<Rightarrow> Some found
      | None \<Rightarrow> findParameterDeep_loop rest nm)"

text \<open>\<^verbatim>\<open>parameter?.value\<close>: undefined when the parameter is.\<close>

definition optValue :: "'n ZmesParameter option \<Rightarrow> 'n zvalue option" where
  "optValue parameter = (case parameter of None \<Rightarrow> None | Some q \<Rightarrow> valueOf q)"

text \<open>\<^verbatim>\<open>parameters.children ?? []\<close>\<close>

definition childrenOrEmpty :: "'n ZmesParameter \<Rightarrow> 'n ZmesParameter list" where
  "childrenOrEmpty parameters =
     (case children parameters of None \<Rightarrow> [] | Some chs \<Rightarrow> chs)"

subsection \<open>Document order\<close>

text \<open>
  The traversal order of the specification, written independently of the
  search: depth first, pre-order, a node before its children, the children in
  their stored order.
\<close>

fun preorder :: "'n ZmesParameter \<Rightarrow> 'n ZmesParameter list"
  and preorder_list :: "'n ZmesParameter list \<Rightarrow> 'n ZmesParameter list"
where
  "preorder (ZmesParameter pname pvalue pchildren) =
     ZmesParameter pname pvalue pchildren #
       (case pchildren of Some chs \<Rightarrow> preorder_list chs | None \<Rightarrow> [])"
| "preorder_list [] = []"
| "preorder_list (child # rest) = preorder child @ preorder_list rest"

text \<open>The first node in document order that carries the given name.\<close>

definition firstNamed :: "'n ZmesParameter \<Rightarrow> string \<Rightarrow> 'n ZmesParameter option" where
  "firstNamed root nm = List.find (\<lambda>q. name q = nm) (preorder root)"

section \<open>Variables\<close>

record VariableDescriptor =
  parameterName :: string
  symbol :: string
  label :: string
  units :: string
  isDependent :: bool

text \<open>
  The units of the diffusion coefficient and of the relaxation time contain
  the micro sign (U+00B5) and superscript two (U+00B2), written here as their
  UTF-8 bytes.
\<close>

definition VARIABLE_DESCRIPTORS :: "VariableDescriptor list" where
  "VARIABLE_DESCRIPTORS =
   [ \<lparr>parameterName = ''Sizes'', symbol = ''x'',
      label = ''Particle diameter'', units = ''nm'', isDependent = False\<rparr>,
     \<lparr>parameterName = ''Particle Size Intensity Distribution'', symbol = ''y'',
      label = ''Intensity'', units = ''%'', isDependent = True\<rparr>,
     \<lparr>parameterName = ''Particle Size Volume Distribution (%)'', symbol = ''v'',
      label = ''Volume'', units = ''%'', isDependent = True\<rparr>,
     \<lparr>parameterName = ''Particle Size Number Distribution'', symbol = ''n'',
      label = ''Number'', units = ''%'', isDependent = True\<rparr>,
     \<lparr>parameterName = ''Molecular Weights'', symbol = ''w'',
      label = ''Molecular weight'', units = ''Da'', isDependent = True\<rparr>,
     \<lparr>parameterName = ''Diffusion Coefficients'', symbol = ''d'',
      label = ''Diffusion coefficient'',
      units = [CHR 0xC2, CHR 0xB5] @ ''m'' @ [CHR 0xC2, CHR 0xB2] @ ''/s'',
      isDependent = True\<rparr>,
     \<lparr>parameterName = ''Relaxation Times'', symbol = ''r'',
      label = ''Relaxation time'', units = [CHR 0xC2, CHR 0xB5] @ ''s'',
      isDependent = True\<rparr>,
     \<lparr>parameterName = ''Form Factor'', symbol = ''f'',
      label = ''Form factor'', units = '''', isDependent = True\<rparr> ]"

text \<open>
  \<^verbatim>\<open>MeasurementVariable<Float64Array>\<close> of \<^verbatim>\<open>cheminfo-types\<close>, with the five
  fields the code fills in.
\<close>

record 'n MeasurementVariable =
  mv_symbol :: string
  mv_label :: string
  mv_units :: string
  mv_data :: "'n list"
  mv_isDependent :: bool

text \<open>
  A JavaScript \<^verbatim>\<open>Map\<close> and a plain object both keep their keys in insertion
  order, and setting an existing key replaces its value in place: an
  association list under \<open>AList.update\<close>.
\<close>

type_synonym 'n VariableMap = "(string \<times> 'n MeasurementVariable) list"

text \<open>\<^verbatim>\<open>parameter?.value instanceof Float64Array\<close>, with the array when it holds.\<close>

definition asFloat64Array :: "'n zvalue option \<Rightarrow> 'n list option" where
  "asFloat64Array v = (case v of Some (VFloat64Array arr) \<Rightarrow> Some arr | _ \<Rightarrow> None)"

definition makeVariable :: "VariableDescriptor \<Rightarrow> 'n list \<Rightarrow> 'n MeasurementVariable" where
  "makeVariable descriptor arr =
     \<lparr>mv_symbol = symbol descriptor, mv_label = label descriptor,
      mv_units = units descriptor, mv_data = arr,
      mv_isDependent = isDependent descriptor\<rparr>"

text \<open>One iteration of the loop over the descriptors.\<close>

definition buildVariables_step ::
  "'n ZmesParameter \<Rightarrow> 'n VariableMap \<Rightarrow> VariableDescriptor \<Rightarrow> 'n VariableMap" where
  "buildVariables_step parameters found descriptor =
     (case asFloat64Array
             (optValue (findParameterDeep parameters (parameterName descriptor))) of
        None \<Rightarrow> found
      | Some arr \<Rightarrow>
          AList.update (symbol descriptor) (makeVariable descriptor arr) found)"

text \<open>One iteration of the loop that copies the optional variables.\<close>

definition copyOptional ::
  "'n VariableMap \<Rightarrow> string \<times> 'n MeasurementVariable \<Rightarrow> 'n VariableMap" where
  "copyOptional variables entry =
     (if fst entry \<noteq> ''x'' \<and> fst entry \<noteq> ''y''
      then AList.update (fst entry) (snd entry) variables
      else variables)"

text \<open>
  \<open>buildVariablesWith\<close> is the body of \<^verbatim>\<open>buildVariables\<close> with the descriptor
  table as an argument; \<open>buildVariables\<close> runs it on the fixed table.
\<close>

definition buildVariablesWith ::
  "VariableDescriptor list \<Rightarrow> 'n ZmesParameter \<Rightarrow> 'n VariableMap option" where
  "buildVariablesWith descriptors parameters =
     (let found = foldl (buildVariables_step parameters) [] descriptors in
      case map_of found ''x'' of
        None \<Rightarrow> None
      | Some x \<Rightarrow>
          (case map_of found ''y'' of
             None \<Rightarrow> None
           | Some y \<Rightarrow> Some (foldl copyOptional [(''x'', x), (''y'', y)] found)))"

definition buildVariables :: "'n ZmesParameter \<Rightarrow> 'n VariableMap option" where
  "buildVariables parameters = buildVariablesWith VARIABLE_DESCRIPTORS parameters"

section \<open>Title\<close>

definition extractTitle :: "'n ZmesParameter \<Rightarrow> string" where
  "extractTitle parameters =
     (case findParameter (childrenOrEmpty parameters) ''Sample Settings'' of
        None \<Rightarrow> []
      | Some sampleSettings \<Rightarrow>
          (case optValue (findParameterDeep sampleSettings ''Sample Name'') of
             Some (VString s) \<Rightarrow> s
           | _ \<Rightarrow> []))"

section \<open>Metadata\<close>

text \<open>
  The meta record is a plain object from keys to the values found in the tree.
  The field tables are lists of pairs (parameter name, key).
\<close>

type_synonym 'n Meta = "(string \<times> 'n zvalue) list"

definition topLevelFields :: "(string \<times> string) list" where
  "topLevelFields =
   [ (''Operator Name'', ''operatorName''),
     (''Measurement Start Date And Time'', ''measurementStartDateTime''),
     (''Measurement Completed Date And Time'', ''measurementCompletedDateTime''),
     (''Repeat'', ''repeat''),
     (''Number Of Repeats'', ''numberOfRepeats''),
     (''Pause Between Repeats (s)'', ''pauseBetweenRepeats''),
     (''Quality Indicator'', ''qualityIndicator''),
     (''Result State'', ''resultState''),
     (''Measurement Type'', ''measurementType'') ]"

definition deepFields :: "(string \<times> string) list" where
  "deepFields =
   [ (''Z-Average (nm)'', ''zAverage''),
     (''Polydispersity Index (PI)'', ''polydispersityIndex''),
     (''Derived Mean Count Rate (kcps)'', ''derivedMeanCountRate'') ]"

text \<open>\<^verbatim>\<open>if (parameter?.value !== undefined) meta[key] = parameter.value\<close>\<close>

definition setIfDefined ::
  "string \<Rightarrow> 'n ZmesParameter option \<Rightarrow> 'n Meta \<Rightarrow> 'n Meta" where
  "setIfDefined key parameter meta =
     (case optValue parameter of
        None \<Rightarrow> meta
      | Some v \<Rightarrow> AList.update key v meta)"

text \<open>
  The four blocks of \<^verbatim>\<open>extractMeta\<close>, each taking the meta object built so far:
  the top-level fields (searched among the direct children of the root only),
  the cumulants results (deep search), the material information (searched
  within "Material Settings") and the dispersant information.
\<close>

definition extractMeta_topLevel :: "'n ZmesParameter \<Rightarrow> 'n Meta \<Rightarrow> 'n Meta" where
  "extractMeta_topLevel parameters meta0 =
     (let chs = childrenOrEmpty parameters
      in foldl (\<lambda>meta field.
                  setIfDefined (snd field) (findParameter chs (fst field)) meta)
           meta0 topLevelFields)"

definition extractMeta_deep :: "'n ZmesParameter \<Rightarrow> 'n Meta \<Rightarrow> 'n Meta" where
  "extractMeta_deep parameters meta0 =
     foldl (\<lambda>meta field.
              setIfDefined (snd field) (findParameterDeep parameters (fst field)) meta)
       meta0 deepFields"

definition extractMeta_material :: "'n ZmesParameter \<Rightarrow> 'n Meta \<Rightarrow> 'n Meta" where
  "extractMeta_material parameters meta0 =
     (case findParameterDeep parameters ''Material Settings'' of
        None \<Rightarrow> meta0
      | Some materialSettings \<Rightarrow>
          (let materialRI = findParameterDeep materialSettings ''Material RI'';
               materialAbsorption =
                 findParameterDeep materialSettings ''Material Absorption''
           in setIfDefined ''materialAbsorption'' materialAbsorption
                (setIfDefined ''materialRI'' materialRI meta0)))"

definition extractMeta_dispersant :: "'n ZmesParameter \<Rightarrow> 'n Meta \<Rightarrow> 'n Meta" where
  "extractMeta_dispersant parameters meta0 =
     (let dispersantViscosity =
            findParameterDeep parameters ''Dispersant Viscosity (cP)'';
          dispersantRI = findParameterDeep parameters ''Dispersant RI''
      in setIfDefined ''dispersantRI'' dispersantRI
           (setIfDefined ''dispersantViscosity'' dispersantViscosity meta0))"

definition extractMeta :: "'n ZmesParameter \<Rightarrow> 'n Meta" where
  "extractMeta parameters =
     extractMeta_dispersant parameters
       (extractMeta_material parameters
         (extractMeta_deep parameters
           (extractMeta_topLevel parameters [])))"

section \<open>Settings\<close>

record Software =
  software_name :: string
  version :: "string option"

record Instrument =
  manufacturer :: string
  model :: string
  serialNumber :: "string option"
  software :: Software

text \<open>
  The settings object holds the instrument description under the key
  \<^verbatim>\<open>instrument\<close> and the numeric settings under their own keys, all in one
  object.
\<close>

datatype 'n SettingsValue = InstrumentValue Instrument | NumberValue 'n

type_synonym 'n Settings = "(string \<times> 'n SettingsValue) list"

text \<open>\<^verbatim>\<open>typeof parameter?.value === 'string'\<close>, with the string when it holds.\<close>

definition asString :: "'n zvalue option \<Rightarrow> string option" where
  "asString v = (case v of Some (VString s) \<Rightarrow> Some s | _ \<Rightarrow> None)"

text \<open>\<^verbatim>\<open>typeof parameter?.value === 'number'\<close>, with the number when it holds.\<close>

definition asNumber :: "'n zvalue option \<Rightarrow> 'n option" where
  "asNumber v = (case v of Some (VNumber n) \<Rightarrow> Some n | _ \<Rightarrow> None)"

text \<open>
  The parameter names of the detector angle and of the temperature contain the
  degree sign (U+00B0), written as its UTF-8 bytes.
\<close>

definition instrumentSettingsFields :: "(string \<times> string) list" where
  "instrumentSettingsFields =
   [ (''Detector Angle ('' @ [CHR 0xC2, CHR 0xB0] @ '')'', ''detectorAngle''),
     (''Run Duration (s)'', ''runDuration''),
     (''Number Of Runs'', ''numberOfRuns''),
     (''Temperature ('' @ [CHR 0xC2, CHR 0xB0] @ ''C)'', ''temperature''),
     (''Attenuator'', ''attenuator''),
     (''Attenuation Factor'', ''attenuationFactor''),
     (''Cuvette Position (mm)'', ''cuvettePosition''),
     (''Laser Wavelength (nm)'', ''laserWavelength'') ]"

text \<open>One iteration of the loop over the numeric settings.\<close>

definition extractSettings_step ::
  "'n ZmesParameter \<Rightarrow> 'n Settings \<Rightarrow> string \<times> string \<Rightarrow> 'n Settings" where
  "extractSettings_step parameters settings field =
     (case asNumber (optValue (findParameterDeep parameters (fst field))) of
        None \<Rightarrow> settings
      | Some n \<Rightarrow> AList.update (snd field) (NumberValue n) settings)"

definition extractSettings :: "'n ZmesParameter \<Rightarrow> 'n Settings" where
  "extractSettings parameters =
     (let chs = childrenOrEmpty parameters;
          softwareVersion = findParameter chs ''Software Version'';
          instrumentSerialNumber =
            findParameterDeep parameters ''Instrument Serial Number'';
          settings =
            [(''instrument'', InstrumentValue
               \<lparr>manufacturer = ''Malvern Panalytical'',
                model = ''Zetasizer'',
                serialNumber = asString (optValue instrumentSerialNumber),
                software =
                  \<lparr>software_name = ''ZS XPLORER'',
                   version = asString (optValue softwareVersion)\<rparr>\<rparr>)]
      in foldl (extractSettings_step parameters) settings instrumentSettingsFields)"

section \<open>The conversion of a file\<close>

text \<open>
  A record of the parsed file, as \<^verbatim>\<open>zmes-parser\<close> returns it: its GUID and the
  root of its parameter tree.
\<close>

record 'n ZmesRecord =
  guid :: string
  parameters :: "'n ZmesParameter"

text \<open>
  Modelled from the spec: the container \<^verbatim>\<open>Analysis\<close> of the external package
  \<^verbatim>\<open>common-spectrum\<close>. It holds the sequence of entries pushed so far;
  \<^verbatim>\<open>pushSpectrum(variableSet, {id, title, dataType, meta})\<close> appends one entry made
  of its arguments, and the caller may set the \<^verbatim>\<open>settings\<close> field of the most
  recently pushed entry.
\<close>

record 'n Spectrum =
  variables :: "'n VariableMap"
  spectrum_id :: string
  title :: string
  dataType :: string
  meta :: "'n Meta"
  settings :: "'n Settings option"

record 'n Analysis =
  spectra :: "'n Spectrum list"

definition newAnalysis :: "'n Analysis" where
  "newAnalysis = \<lparr>spectra = []\<rparr>"

definition pushSpectrum ::
  "'n Analysis \<Rightarrow> 'n VariableMap \<Rightarrow> string \<Rightarrow> string \<Rightarrow> string \<Rightarrow> 'n Meta \<Rightarrow> 'n Analysis" where
  "pushSpectrum analysis vs ident ttl dtype m =
     analysis\<lparr>spectra := spectra analysis @
       [\<lparr>variables = vs, spectrum_id = ident, title = ttl, dataType = dtype,
         meta = m, settings = None\<rparr>]\<rparr>"

text \<open>
  \<^verbatim>\<open>const spectrum = analysis.spectra.at(-1); if (spectrum) spectrum.settings = s\<close>:
  the last entry, when there is one, gets the settings.
\<close>

definition setLastSettings :: "'n Analysis \<Rightarrow> 'n Settings \<Rightarrow> 'n Analysis" where
  "setLastSettings analysis s =
     (case rev (spectra analysis) of
        [] \<Rightarrow> analysis
      | spectrum # before \<Rightarrow>
          analysis\<lparr>spectra := rev before @ [spectrum\<lparr>settings := Some s\<rparr>]\<rparr>)"

text \<open>The body of the loop over the records; \<^verbatim>\<open>continue\<close> leaves the analysis as it is.\<close>

definition fromZmes_step :: "'n Analysis \<Rightarrow> 'n ZmesRecord \<Rightarrow> 'n Analysis" where
  "fromZmes_step analysis record =
     (case buildVariables (parameters record) of
        None \<Rightarrow> analysis
      | Some vs \<Rightarrow>
          setLastSettings
            (pushSpectrum analysis vs (guid record)
               (extractTitle (parameters record)) ''Size measurement''
               (extractMeta (parameters record)))
            (extractSettings (parameters record)))"

text \<open>
  \<open>fromZmes\<close> on the records that the parser returned for the file (the parse
  itself is outside this development).
\<close>

definition fromZmes :: "'n ZmesRecord list \<Rightarrow> 'n Analysis" where
  "fromZmes records = foldl fromZmes_step newAnalysis records"

section \<open>Words of the specification\<close>

text \<open>
  The numeric array that a parameter name resolves to: the value of the first
  node in document order with that name, when there is such a node and its
  value is a \<^verbatim>\<open>Float64Array\<close>.
\<close>

definition numericArrayAt :: "'n ZmesParameter \<Rightarrow> string \<Rightarrow> 'n list option" where
  "numericArrayAt root nm = asFloat64Array (optValue (firstNamed root nm))"

section \<open>Example trees\<close>

text \<open>
  A record with all the kinds of fields. "Core Characteristics" comes before
  "Material Settings" and also holds a "Material RI"; the number distribution
  appears twice, first with a string value.
\<close>

definition exampleRecord :: "int ZmesParameter" where
  "exampleRecord =
     ZmesParameter ''Record'' None (Some
       [ ZmesParameter ''Operator Name'' (Some (VString ''gbf'')) None,
         ZmesParameter ''Software Version'' (Some (VString ''4.1.0.82'')) None,
         ZmesParameter ''Repeat'' None None,
         ZmesParameter ''Sample Settings'' None (Some
           [ ZmesParameter ''Sample Name'' (Some (VString ''TEST'')) None,
             ZmesParameter ''Core Characteristics'' None (Some
               [ ZmesParameter ''Material RI'' (Some (VNumber 99)) None,
                 ZmesParameter ''Material Absorption'' (Some (VNumber 5)) None ]),
             ZmesParameter ''Material Settings'' None (Some
               [ ZmesParameter ''Material RI'' (Some (VNumber 17)) None ]) ]),
         ZmesParameter ''Size Analysis Result'' None (Some
           [ ZmesParameter ''Sizes'' (Some (VFloat64Array [1, 2])) None,
             ZmesParameter ''Particle Size Intensity Distribution''
               (Some (VFloat64Array [3, 4])) None,
             ZmesParameter ''Particle Size Number Distribution''
               (Some (VString ''none'')) None,
             ZmesParameter ''Particle Size Number Distribution''
               (Some (VFloat64Array [7, 8])) None,
             ZmesParameter ''Molecular Weights'' (Some (VFloat64Array [5, 6])) None,
             ZmesParameter ''Form Factor'' (Some (VFloat64Array [9])) None,
             ZmesParameter ''Z-Average (nm)'' (Some (VNumber 489)) None,
             ZmesParameter ''Attenuator'' (Some (VNumber 7)) None,
             ZmesParameter ''Number Of Runs'' (Some (VString ''35'')) None ]) ])"

text \<open>The variable set of \<open>exampleRecord\<close>.\<close>

definition exampleVariables :: "int VariableMap" where
  "exampleVariables =
     [ (''x'', \<lparr>mv_symbol = ''x'', mv_label = ''Particle diameter'', mv_units = ''nm'',
               mv_data = [1, 2], mv_isDependent = False\<rparr>),
       (''y'', \<lparr>mv_symbol = ''y'', mv_label = ''Intensity'', mv_units = ''%'',
               mv_data = [3, 4], mv_isDependent = True\<rparr>),
       (''w'', \<lparr>mv_symbol = ''w'', mv_label = ''Molecular weight'', mv_units = ''Da'',
               mv_data = [5, 6], mv_isDependent = True\<rparr>),
       (''f'', \<lparr>mv_symbol = ''f'', mv_label = ''Form factor'', mv_units = [],
               mv_data = [9], mv_isDependent = True\<rparr>) ]"

text \<open>
  A record whose first "Sizes" node holds a string, with a numeric "Sizes"
  array and a numeric intensity array later in the tree.
\<close>

definition shadowedRecord :: "int ZmesParameter" where
  "shadowedRecord =
     ZmesParameter ''Record'' None (Some
       [ ZmesParameter ''Sizes'' (Some (VString ''pending'')) None,
         ZmesParameter ''Size Analysis Result'' None (Some
           [ ZmesParameter ''Sizes'' (Some (VFloat64Array [1, 2])) None,
             ZmesParameter ''Particle Size Intensity Distribution''
               (Some (VFloat64Array [3, 4])) None ]) ])"

text \<open>A record with no value and no children at all.\<close>

definition bareRecord :: "int ZmesParameter" where
  "bareRecord = ZmesParameter ''Record'' None None"

text \<open>Two same-named nodes at different depths.\<close>

definition twoNamed :: "int ZmesParameter" where
  "twoNamed =
     ZmesParameter ''root'' None (Some
       [ ZmesParameter ''a'' None (Some [ZmesParameter ''t'' (Some (VNumber 1)) None]),
         ZmesParameter ''t'' (Some (VNumber 2)) None ])"

text \<open>A file of four records: the second and the third lack the required variables.\<close>

definition exampleFile :: "int ZmesRecord list" where
  "exampleFile =
     [ \<lparr>guid = ''f5e0a56f-3426-427a-91ca-731e963cc86b'', parameters = exampleRecord\<rparr>,
       \<lparr>guid = ''00000000-0000-0000-0000-000000000002'', parameters = shadowedRecord\<rparr>,
       \<lparr>guid = ''00000000-0000-0000-0000-000000000003'', parameters = bareRecord\<rparr>,
       \<lparr>guid = ''00000000-0000-0000-0000-000000000004'', parameters = exampleRecord\<rparr> ]"

section \<open>Search results\<close>

lemma find_append_case:
  "List.find P (xs @ ys) =
     (case List.find P xs of Some x \<Rightarrow> Some x | None \<Rightarrow> List.find P ys)"
  by (induction xs) simp_all

lemma findParameterDeep_find_preorder:
  "findParameterDeep (p :: 'n ZmesParameter) nm =
     List.find (\<lambda>q. name q = nm) (preorder p)"
  "findParameterDeep_loop (ps :: 'n ZmesParameter list) nm =
     List.find (\<lambda>q. name q = nm) (preorder_list ps)"
proof (induction p nm and ps nm rule: findParameterDeep_findParameterDeep_loop.induct)
  case (1 pname pvalue pchildren nm)
  then show ?case by (cases pchildren) simp_all
next
  case (2 nm)
  show ?case by simp
next
  case (3 child rest nm)
  then show ?case by (simp add: find_append_case split: option.splits)
qed

lemma findParameterDeep_firstNamed: "findParameterDeep p nm = firstNamed p nm"
  by (simp add: firstNamed_def findParameterDeep_find_preorder)

lemma find_first_index:
  "i < length xs \<Longrightarrow> P (xs ! i) \<Longrightarrow> (\<forall>j<i. \<not> P (xs ! j)) \<Longrightarrow>
   List.find P xs = Some (xs ! i)"
proof (induction xs arbitrary: i)
  case Nil
  then show ?case by simp
next
  case (Cons x xs)
  show ?case
  proof (cases i)
    case 0
    with Cons.prems show ?thesis by simp
  next
    case (Suc k)
    with Cons.prems have "\<not> P x" by auto
    moreover from Suc Cons.prems have "List.find P xs = Some (xs ! k)"
      by (intro Cons.IH) auto
    ultimately show ?thesis using Suc by simp
  qed
qed

text \<open>
  C3. \<open>findParameterDeep\<close> is the depth-first pre-order search: its result is
  the first node of the document order (the root first, then the children in
  their stored order, each with its whole subtree) whose name is the searched
  one, and it is "not found" exactly when no node carries the name. In
  particular a node at position \<open>i\<close> of the document order is the one returned
  whenever it carries the name and no node before it does, whatever same-named
  nodes follow.
\<close>

theorem findParameterDeep_first_in_preorder:
  "findParameterDeep p nm = List.find (\<lambda>q. name q = nm) (preorder p)
   \<and> hd (preorder p) = p
   \<and> (findParameterDeep p nm = None \<longleftrightarrow> (\<forall>q \<in> set (preorder p). name q \<noteq> nm))
   \<and> (\<forall>i < length (preorder p).
         name (preorder p ! i) = nm \<and> (\<forall>j < i. name (preorder p ! j) \<noteq> nm)
         \<longrightarrow> findParameterDeep p nm = Some (preorder p ! i))"
proof -
  have a: "findParameterDeep p nm = List.find (\<lambda>q. name q = nm) (preorder p)"
    by (rule findParameterDeep_find_preorder)
  have b: "hd (preorder p) = p" by (cases p) simp
  have c: "findParameterDeep p nm = None \<longleftrightarrow> (\<forall>q \<in> set (preorder p). name q \<noteq> nm)"
    unfolding a by (auto simp: find_None_iff)
  have d: "\<forall>i < length (preorder p).
         name (preorder p ! i) = nm \<and> (\<forall>j < i. name (preorder p ! j) \<noteq> nm)
         \<longrightarrow> findParameterDeep p nm = Some (preorder p ! i)"
    unfolding a by (auto intro: find_first_index)
  from a b c d show ?thesis by blast
qed

theorem findParameterDeep_first_in_preorder_witness:
  "(2::nat) < length (preorder twoNamed)
   \<and> name (preorder twoNamed ! 2) = ''t''
   \<and> name (preorder twoNamed ! 0) \<noteq> ''t'' \<and> name (preorder twoNamed ! 1) \<noteq> ''t''
   \<and> name (preorder twoNamed ! 3) = ''t''
   \<and> findParameterDeep twoNamed ''t'' = Some (ZmesParameter ''t'' (Some (VNumber 1)) None)
   \<and> list_all (\<lambda>q. name q \<noteq> ''zz'') (preorder twoNamed)
   \<and> findParameterDeep twoNamed ''zz'' = None"
  using findParameterDeep_first_in_preorder [of twoNamed "''t''"]
    findParameterDeep_first_in_preorder [of twoNamed "''zz''"]
  by (simp add: twoNamed_def)

section \<open>The variable set\<close>

lemma buildVariables_step_map_of:
  "map_of (buildVariables_step p acc d) k =
     (if symbol d = k
      then (case asFloat64Array (optValue (findParameterDeep p (parameterName d))) of
              None \<Rightarrow> map_of acc k
            | Some arr \<Rightarrow> Some (makeVariable d arr))
      else map_of acc k)"
  by (auto simp: buildVariables_step_def update_conv' split: option.splits)

lemma buildVariables_step_distinct:
  "distinct (map fst acc) \<Longrightarrow> distinct (map fst (buildVariables_step p acc d))"
  by (simp add: buildVariables_step_def distinct_update split: option.splits)

lemma found_distinct:
  "distinct (map fst acc) \<Longrightarrow>
   distinct (map fst (foldl (buildVariables_step p) acc ds))"
  by (induction ds arbitrary: acc) (simp_all add: buildVariables_step_distinct)

lemma found_map_of:
  "distinct (map symbol ds) \<Longrightarrow>
   map_of (foldl (buildVariables_step p) acc ds) k =
     (case List.find (\<lambda>d. symbol d = k) ds of
        None \<Rightarrow> map_of acc k
      | Some d \<Rightarrow>
          (case asFloat64Array (optValue (findParameterDeep p (parameterName d))) of
             None \<Rightarrow> map_of acc k
           | Some arr \<Rightarrow> Some (makeVariable d arr)))"
proof (induction ds arbitrary: acc)
  case Nil
  show ?case by simp
next
  case (Cons d ds)
  from Cons.prems have dist: "distinct (map symbol ds)" and notin: "symbol d \<notin> symbol ` set ds"
    by simp_all
  show ?case
  proof (cases "symbol d = k")
    case True
    from notin have "\<forall>x\<in>set ds. symbol x \<noteq> symbol d"
      by (metis image_eqI)
    with True have "List.find (\<lambda>d. symbol d = k) ds = None"
      by (auto simp: find_None_iff)
    with True show ?thesis
      by (simp add: Cons.IH [OF dist] buildVariables_step_map_of)
  next
    case False
    then show ?thesis
      by (simp add: Cons.IH [OF dist] buildVariables_step_map_of split: option.splits)
  qed
qed

lemma copyOptional_step_map_of:
  "map_of (copyOptional acc e) k =
     (if fst e \<noteq> ''x'' \<and> fst e \<noteq> ''y'' \<and> fst e = k then Some (snd e)
      else map_of acc k)"
  by (simp add: copyOptional_def update_conv')

lemma copyOptional_step_distinct:
  "distinct (map fst acc) \<Longrightarrow> distinct (map fst (copyOptional acc e))"
  by (simp add: copyOptional_def distinct_update)

lemma copyOptional_map_of:
  "distinct (map fst found) \<Longrightarrow>
   map_of (foldl copyOptional acc found) k =
     (if k \<noteq> ''x'' \<and> k \<noteq> ''y''
      then (case map_of found k of Some v \<Rightarrow> Some v | None \<Rightarrow> map_of acc k)
      else map_of acc k)"
proof (induction found arbitrary: acc)
  case Nil
  show ?case by simp
next
  case (Cons e found)
  from Cons.prems have dist: "distinct (map fst found)" and notin: "fst e \<notin> fst ` set found"
    by simp_all
  from notin have none: "map_of found (fst e) = None"
    by (simp add: map_of_eq_None_iff)
  show ?case
    using none
    by (cases e) (auto simp: Cons.IH [OF dist] copyOptional_step_map_of split: option.splits)
qed

lemma copyOptional_distinct:
  "distinct (map fst acc) \<Longrightarrow> distinct (map fst (foldl copyOptional acc found))"
  by (induction found arbitrary: acc) (simp_all add: copyOptional_step_distinct)

lemma buildVariablesWith_None_iff:
  "buildVariablesWith ds p = None \<longleftrightarrow>
     map_of (foldl (buildVariables_step p) [] ds) ''x'' = None \<or>
     map_of (foldl (buildVariables_step p) [] ds) ''y'' = None"
  by (simp add: buildVariablesWith_def Let_def split: option.splits)

lemma buildVariablesWith_Some_map_of:
  assumes "buildVariablesWith ds p = Some vs"
  shows "map_of vs = map_of (foldl (buildVariables_step p) [] ds)"
proof -
  let ?found = "foldl (buildVariables_step p) [] ds"
  from assms obtain x y where x: "map_of ?found ''x'' = Some x"
    and y: "map_of ?found ''y'' = Some y"
    and vs: "vs = foldl copyOptional [(''x'', x), (''y'', y)] ?found"
    by (auto simp: buildVariablesWith_def Let_def split: option.splits)
  have dist: "distinct (map fst ?found)" by (rule found_distinct) simp
  show ?thesis
  proof
    fix k
    show "map_of vs k = map_of ?found k"
      using x y by (auto simp: vs copyOptional_map_of [OF dist] split: option.splits)
  qed
qed

lemma buildVariablesWith_Some_distinct:
  assumes "buildVariablesWith ds p = Some vs"
  shows "distinct (map fst vs)"
proof -
  from assms obtain x y where
    vs: "vs = foldl copyOptional [(''x'', x), (''y'', y)] (foldl (buildVariables_step p) [] ds)"
    by (auto simp: buildVariablesWith_def Let_def split: option.splits)
  show ?thesis unfolding vs by (rule copyOptional_distinct) simp
qed

lemma VARIABLE_DESCRIPTORS_distinct: "distinct (map symbol VARIABLE_DESCRIPTORS)"
  by (simp add: VARIABLE_DESCRIPTORS_def)

lemma find_distinct_key:
  "distinct (map f xs) \<Longrightarrow> d \<in> set xs \<Longrightarrow> List.find (\<lambda>e. f e = f d) xs = Some d"
proof (induction xs)
  case Nil
  then show ?case by simp
next
  case (Cons a xs)
  show ?case
  proof (cases "a = d")
    case True
    then show ?thesis by simp
  next
    case False
    with Cons.prems have "d \<in> set xs" and "f a \<noteq> f d" by auto
    with Cons show ?thesis by simp
  qed
qed

lemma find_absent_key:
  "k \<notin> f ` set xs \<Longrightarrow> List.find (\<lambda>e. f e = k) xs = None"
  by (auto simp: find_None_iff)

lemma found_lookup:
  assumes "distinct (map symbol ds)" and "d \<in> set ds"
  shows "map_of (foldl (buildVariables_step p) [] ds) (symbol d) =
           map_option (makeVariable d) (numericArrayAt p (parameterName d))"
  using assms
  by (simp add: found_map_of find_distinct_key numericArrayAt_def
        findParameterDeep_firstNamed split: option.splits)

lemma found_absent:
  assumes "distinct (map symbol ds)" and "k \<notin> symbol ` set ds"
  shows "map_of (foldl (buildVariables_step p) [] ds) k = None"
  using assms by (simp add: found_map_of find_absent_key)

lemma Sizes_in_table:
  "\<lparr>parameterName = ''Sizes'', symbol = ''x'',
      label = ''Particle diameter'', units = ''nm'', isDependent = False\<rparr>
    \<in> set VARIABLE_DESCRIPTORS"
  by (simp add: VARIABLE_DESCRIPTORS_def)

lemma Intensity_in_table:
  "\<lparr>parameterName = ''Particle Size Intensity Distribution'', symbol = ''y'',
      label = ''Intensity'', units = ''%'', isDependent = True\<rparr>
    \<in> set VARIABLE_DESCRIPTORS"
  by (simp add: VARIABLE_DESCRIPTORS_def)

lemma found_x:
  "map_of (foldl (buildVariables_step p) [] VARIABLE_DESCRIPTORS) ''x'' = None \<longleftrightarrow>
     numericArrayAt p ''Sizes'' = None"
  using found_lookup [OF VARIABLE_DESCRIPTORS_distinct Sizes_in_table, of p] by simp

lemma found_y:
  "map_of (foldl (buildVariables_step p) [] VARIABLE_DESCRIPTORS) ''y'' = None \<longleftrightarrow>
     numericArrayAt p ''Particle Size Intensity Distribution'' = None"
  using found_lookup [OF VARIABLE_DESCRIPTORS_distinct Intensity_in_table, of p] by simp

lemma buildVariables_None_iff:
  "buildVariables p = None \<longleftrightarrow>
     numericArrayAt p ''Sizes'' = None \<or>
     numericArrayAt p ''Particle Size Intensity Distribution'' = None"
  by (simp add: buildVariables_def buildVariablesWith_None_iff found_x found_y)

lemma buildVariables_Some_lookup:
  assumes "buildVariables p = Some vs" and "d \<in> set VARIABLE_DESCRIPTORS"
  shows "map_of vs (symbol d) =
           map_option (makeVariable d) (numericArrayAt p (parameterName d))"
  using assms
  by (simp add: buildVariables_def buildVariablesWith_Some_map_of
        found_lookup [OF VARIABLE_DESCRIPTORS_distinct])

lemma buildVariables_Some_absent:
  assumes "buildVariables p = Some vs" and "k \<notin> symbol ` set VARIABLE_DESCRIPTORS"
  shows "map_of vs k = None"
  using assms
  by (simp add: buildVariables_def buildVariablesWith_Some_map_of
        found_absent [OF VARIABLE_DESCRIPTORS_distinct])

text \<open>
  C1. \<open>buildVariables\<close> returns "not found" exactly when the first node in
  document order named "Sizes" is missing or does not hold a numeric array, or
  the first node named "Particle Size Intensity Distribution" is missing or
  does not hold one. Otherwise the returned set has \<open>x\<close> and \<open>y\<close>; for every
  descriptor of the table its symbol is present exactly when its parameter
  name resolved to a numeric array, and then holds that array with the
  descriptor's label and units; and no other key is present.
\<close>

theorem buildVariables_not_found_iff:
  "(buildVariables p = None \<longleftrightarrow>
      numericArrayAt p ''Sizes'' = None \<or>
      numericArrayAt p ''Particle Size Intensity Distribution'' = None)
   \<and> (\<forall>vs. buildVariables p = Some vs \<longrightarrow>
         map_of vs ''x'' \<noteq> None \<and> map_of vs ''y'' \<noteq> None
         \<and> (\<forall>d \<in> set VARIABLE_DESCRIPTORS.
               map_of vs (symbol d) =
                 map_option (makeVariable d) (numericArrayAt p (parameterName d))
               \<and> (map_of vs (symbol d) \<noteq> None \<longleftrightarrow>
                    numericArrayAt p (parameterName d) \<noteq> None))
         \<and> (\<forall>k. k \<notin> symbol ` set VARIABLE_DESCRIPTORS \<longrightarrow> map_of vs k = None))"
proof (intro conjI allI impI ballI)
  show "buildVariables p = None \<longleftrightarrow>
      numericArrayAt p ''Sizes'' = None \<or>
      numericArrayAt p ''Particle Size Intensity Distribution'' = None"
    by (rule buildVariables_None_iff)
next
  fix vs assume vs: "buildVariables p = Some vs"
  then have "numericArrayAt p ''Sizes'' \<noteq> None"
    and "numericArrayAt p ''Particle Size Intensity Distribution'' \<noteq> None"
    using buildVariables_None_iff [of p] by auto
  then show "map_of vs ''x'' \<noteq> None" and "map_of vs ''y'' \<noteq> None"
    using buildVariables_Some_lookup [OF vs Sizes_in_table]
      buildVariables_Some_lookup [OF vs Intensity_in_table] by auto
next
  fix vs d assume vs: "buildVariables p = Some vs" and d: "d \<in> set VARIABLE_DESCRIPTORS"
  show eq: "map_of vs (symbol d) =
          map_option (makeVariable d) (numericArrayAt p (parameterName d))"
    by (rule buildVariables_Some_lookup [OF vs d])
  show "map_of vs (symbol d) \<noteq> None \<longleftrightarrow> numericArrayAt p (parameterName d) \<noteq> None"
    unfolding eq by simp
next
  fix vs k assume "buildVariables p = Some vs" and "k \<notin> symbol ` set VARIABLE_DESCRIPTORS"
  then show "map_of vs k = None" by (rule buildVariables_Some_absent)
qed

lemma exampleRecord_variables:
  "buildVariables exampleRecord = Some exampleVariables"
  by code_simp

lemma exampleRecord_arrays:
  "numericArrayAt exampleRecord ''Sizes'' = Some [1, 2]"
  "numericArrayAt exampleRecord ''Particle Size Number Distribution'' = None"
  by code_simp+

lemma bareRecord_variables:
  "buildVariables bareRecord = None" "numericArrayAt bareRecord ''Sizes'' = None"
  by code_simp+

theorem buildVariables_not_found_iff_witness:
  "buildVariables exampleRecord = Some exampleVariables
   \<and> numericArrayAt exampleRecord ''Sizes'' = Some [1, 2]
   \<and> numericArrayAt exampleRecord ''Particle Size Number Distribution'' = None
   \<and> buildVariables bareRecord = None
   \<and> numericArrayAt bareRecord ''Sizes'' = None"
  using buildVariables_not_found_iff [of exampleRecord]
    buildVariables_not_found_iff [of bareRecord]
  by (simp add: exampleRecord_variables exampleRecord_arrays bareRecord_variables)

section \<open>Order of the descriptors, and shadowed nodes\<close>

lemma find_unique_perm:
  assumes "distinct (map f xs)" and "distinct (map f ys)" and "set xs = set ys"
  shows "List.find (\<lambda>e. f e = k) xs = List.find (\<lambda>e. f e = k) ys"
proof (cases "k \<in> f ` set xs")
  case True
  then obtain d where d: "d \<in> set xs" and k: "k = f d" by auto
  from d assms(3) have d': "d \<in> set ys" by simp
  show ?thesis
    unfolding k
    by (simp add: find_distinct_key [OF assms(1) d] find_distinct_key [OF assms(2) d'])
next
  case False
  with assms(3) have "k \<notin> f ` set ys" by simp
  with False show ?thesis by (simp add: find_absent_key)
qed

lemma found_perm:
  assumes "mset ds = mset ds'" and "distinct (map symbol ds')"
  shows "map_of (foldl (buildVariables_step p) [] ds) =
         map_of (foldl (buildVariables_step p) [] ds')"
proof -
  from assms(1) have sets: "set ds = set ds'" by (rule mset_eq_setD)
  from assms(1) have "mset (map symbol ds) = mset (map symbol ds')" by simp
  with assms(2) have dist: "distinct (map symbol ds)"
    by (metis mset_eq_imp_distinct_iff)
  show ?thesis
  proof
    fix k
    show "map_of (foldl (buildVariables_step p) [] ds) k =
          map_of (foldl (buildVariables_step p) [] ds') k"
      by (simp add: found_map_of [OF dist] found_map_of [OF assms(2)]
            find_unique_perm [OF dist assms(2) sets])
  qed
qed

lemma alist_mset_eq:
  assumes "distinct (map fst xs)" and "distinct (map fst ys)" and "map_of xs = map_of ys"
  shows "mset xs = mset ys"
proof -
  from assms have "set xs = set ys" by (simp add: map_of_inject_set)
  moreover from assms(1) have "distinct xs" by (simp add: distinct_map)
  moreover from assms(2) have "distinct ys" by (simp add: distinct_map)
  ultimately show ?thesis by (simp add: set_eq_iff_mset_eq_distinct)
qed

text \<open>
  C9. For every permutation of the descriptor table the variable set is the
  same mapping from symbols to variables (and the same entries, as a
  multiset), and it is "not found" for the permutation exactly when it is for
  the table: the symbols of the table are pairwise different. Only the order
  in which the optional keys were inserted follows the order of the
  descriptors.
\<close>

theorem buildVariables_descriptor_order:
  assumes "mset ds = mset VARIABLE_DESCRIPTORS"
  shows "map_option map_of (buildVariablesWith ds p) = map_option map_of (buildVariables p)
       \<and> map_option mset (buildVariablesWith ds p) = map_option mset (buildVariables p)"
proof -
  have found: "map_of (foldl (buildVariables_step p) [] ds) =
         map_of (foldl (buildVariables_step p) [] VARIABLE_DESCRIPTORS)"
    using assms VARIABLE_DESCRIPTORS_distinct by (rule found_perm)
  have none_iff: "buildVariablesWith ds p = None \<longleftrightarrow> buildVariables p = None"
    by (simp only: buildVariables_def buildVariablesWith_None_iff found)
  show ?thesis
  proof (cases "buildVariablesWith ds p")
    case None
    with none_iff have "buildVariables p = None" by simp
    with None show ?thesis by simp
  next
    case (Some vs)
    with none_iff have "buildVariables p \<noteq> None" by simp
    then obtain vs' where vs': "buildVariablesWith VARIABLE_DESCRIPTORS p = Some vs'"
      by (auto simp: buildVariables_def)
    have maps: "map_of vs = map_of vs'"
      by (simp add: buildVariablesWith_Some_map_of [OF Some]
            buildVariablesWith_Some_map_of [OF vs'] found)
    have "mset vs = mset vs'"
      using buildVariablesWith_Some_distinct [OF Some]
        buildVariablesWith_Some_distinct [OF vs'] maps
      by (rule alist_mset_eq)
    with maps Some vs' show ?thesis by (simp add: buildVariables_def)
  qed
qed

lemma exampleRecord_variables_rev:
  "buildVariablesWith (rev VARIABLE_DESCRIPTORS) exampleRecord =
     Some [exampleVariables ! 0, exampleVariables ! 1, exampleVariables ! 3,
           exampleVariables ! 2]"
  by code_simp

theorem buildVariables_descriptor_order_witness:
  "mset (rev VARIABLE_DESCRIPTORS) = mset VARIABLE_DESCRIPTORS
   \<and> map_option map_of (buildVariablesWith (rev VARIABLE_DESCRIPTORS) exampleRecord) =
       map_option map_of (buildVariables exampleRecord)
   \<and> map_option mset (buildVariablesWith (rev VARIABLE_DESCRIPTORS) exampleRecord) =
       map_option mset (buildVariables exampleRecord)
   \<and> buildVariablesWith (rev VARIABLE_DESCRIPTORS) exampleRecord \<noteq> None"
  using buildVariables_descriptor_order [of "rev VARIABLE_DESCRIPTORS" exampleRecord]
  by (simp add: exampleRecord_variables_rev)

lemma buildVariables_first_not_array:
  assumes "d \<in> set VARIABLE_DESCRIPTORS"
    and "firstNamed p (parameterName d) = Some q"
    and "asFloat64Array (valueOf q) = None"
  shows "numericArrayAt p (parameterName d) = None"
  using assms by (simp add: numericArrayAt_def optValue_def)

lemma shadowedRecord_facts:
  "buildVariables shadowedRecord = None"
  "firstNamed shadowedRecord ''Sizes'' =
     Some (ZmesParameter ''Sizes'' (Some (VString ''pending'')) None)"
  "list_ex (\<lambda>q. name q = ''Sizes'' \<and> asFloat64Array (valueOf q) \<noteq> None)
     (preorder shadowedRecord)"
  "list_ex (\<lambda>q. name q = ''Particle Size Intensity Distribution''
                 \<and> asFloat64Array (valueOf q) \<noteq> None)
     (preorder shadowedRecord)"
  by code_simp+

text \<open>
  C10. There is no fallback to a later node of the same name. When the first
  node in document order with a descriptor's parameter name does not hold a
  numeric array, the descriptor's symbol is absent from the variable set,
  whatever other nodes of that name the tree holds; for "Sizes" and for the
  intensity distribution the whole record is then "not found". The record
  \<open>shadowedRecord\<close> is skipped although numeric "Sizes" and intensity arrays
  exist in its tree.
\<close>

theorem buildVariables_no_fallback:
  "(\<forall>d \<in> set VARIABLE_DESCRIPTORS. \<forall>q vs.
        firstNamed p (parameterName d) = Some q \<and> asFloat64Array (valueOf q) = None
        \<and> buildVariables p = Some vs
        \<longrightarrow> map_of vs (symbol d) = None)
   \<and> (\<forall>q. firstNamed p ''Sizes'' = Some q \<and> asFloat64Array (valueOf q) = None
          \<longrightarrow> buildVariables p = None)
   \<and> (\<forall>q. firstNamed p ''Particle Size Intensity Distribution'' = Some q
            \<and> asFloat64Array (valueOf q) = None
          \<longrightarrow> buildVariables p = None)
   \<and> buildVariables shadowedRecord = None
   \<and> list_ex (\<lambda>q. name q = ''Sizes'' \<and> asFloat64Array (valueOf q) \<noteq> None)
        (preorder shadowedRecord)
   \<and> list_ex (\<lambda>q. name q = ''Particle Size Intensity Distribution''
                    \<and> asFloat64Array (valueOf q) \<noteq> None)
        (preorder shadowedRecord)"
proof -
  have a: "\<forall>d \<in> set VARIABLE_DESCRIPTORS. \<forall>q vs.
        firstNamed p (parameterName d) = Some q \<and> asFloat64Array (valueOf q) = None
        \<and> buildVariables p = Some vs
        \<longrightarrow> map_of vs (symbol d) = None"
    by (auto simp: buildVariables_Some_lookup buildVariables_first_not_array)
  have b: "\<forall>q. firstNamed p ''Sizes'' = Some q \<and> asFloat64Array (valueOf q) = None
          \<longrightarrow> buildVariables p = None"
    by (simp add: buildVariables_None_iff numericArrayAt_def optValue_def)
  have c: "\<forall>q. firstNamed p ''Particle Size Intensity Distribution'' = Some q
            \<and> asFloat64Array (valueOf q) = None
          \<longrightarrow> buildVariables p = None"
    by (simp add: buildVariables_None_iff numericArrayAt_def optValue_def)
  from a b c shadowedRecord_facts(1,3,4) show ?thesis by blast
qed

lemma exampleRecord_number_distribution:
  "firstNamed exampleRecord ''Particle Size Number Distribution'' =
     Some (ZmesParameter ''Particle Size Number Distribution'' (Some (VString ''none'')) None)"
  "list_ex (\<lambda>q. name q = ''Particle Size Number Distribution''
                 \<and> asFloat64Array (valueOf q) = Some [7, 8])
     (preorder exampleRecord)"
  "list_ex (\<lambda>d. parameterName d = ''Particle Size Number Distribution'' \<and> symbol d = ''n'')
     VARIABLE_DESCRIPTORS"
  by code_simp+

lemma exampleVariables_facts:
  "asFloat64Array (Some (VString ''none'') :: int zvalue option) = None"
  "map_of exampleVariables ''n'' = None"
  by code_simp+

theorem buildVariables_no_fallback_witness:
  "list_ex (\<lambda>d. parameterName d = ''Particle Size Number Distribution'' \<and> symbol d = ''n'')
     VARIABLE_DESCRIPTORS
   \<and> firstNamed exampleRecord ''Particle Size Number Distribution'' =
       Some (ZmesParameter ''Particle Size Number Distribution''
               (Some (VString ''none'')) None)
   \<and> asFloat64Array (Some (VString ''none'') :: int zvalue option) = None
   \<and> list_ex (\<lambda>q. name q = ''Particle Size Number Distribution''
                    \<and> asFloat64Array (valueOf q) = Some [7, 8])
        (preorder exampleRecord)
   \<and> buildVariables exampleRecord = Some exampleVariables
   \<and> map_of exampleVariables ''n'' = None
   \<and> firstNamed shadowedRecord ''Sizes'' =
       Some (ZmesParameter ''Sizes'' (Some (VString ''pending'')) None)
   \<and> buildVariables shadowedRecord = None"
  using buildVariables_no_fallback [of exampleRecord]
    buildVariables_no_fallback [of shadowedRecord]
  by (simp add: exampleRecord_number_distribution exampleRecord_variables
        shadowedRecord_facts exampleVariables_facts)

section \<open>Metadata results\<close>

lemma cond_update_fold_untouched:
  assumes step: "\<And>acc e k. map_of (step acc e) k =
      (if key e = k then (case g e of None \<Rightarrow> map_of acc k | Some v \<Rightarrow> Some v)
       else map_of acc k)"
    and "k \<notin> key ` set es"
  shows "map_of (foldl step acc es) k = map_of acc k"
  using assms(2)
proof (induction es arbitrary: acc)
  case Nil
  show ?case by simp
next
  case (Cons a es)
  then have "key a \<noteq> k" and "k \<notin> key ` set es" by auto
  then show ?case by (simp add: Cons.IH step)
qed

lemma cond_update_fold_lookup:
  assumes step: "\<And>acc e k. map_of (step acc e) k =
      (if key e = k then (case g e of None \<Rightarrow> map_of acc k | Some v \<Rightarrow> Some v)
       else map_of acc k)"
    and "distinct (map key es)" and "e \<in> set es"
  shows "map_of (foldl step acc es) (key e) =
           (case g e of None \<Rightarrow> map_of acc (key e) | Some v \<Rightarrow> Some v)"
  using assms(2,3)
proof (induction es arbitrary: acc)
  case Nil
  then show ?case by simp
next
  case (Cons a es)
  show ?case
  proof (cases "a = e")
    case True
    from Cons.prems have "key e \<notin> key ` set es" using True by simp
    then have "map_of (foldl step (step acc a) es) (key e) = map_of (step acc a) (key e)"
      by (rule cond_update_fold_untouched [of step key g, OF step])
    then show ?thesis using True by (simp add: step)
  next
    case False
    with Cons.prems have e: "e \<in> set es" and ne: "key a \<noteq> key e" and d: "distinct (map key es)"
      by auto
    have "map_of (step acc a) (key e) = map_of acc (key e)"
      using ne by (simp add: step)
    then show ?thesis by (simp add: Cons.IH [OF d e] split: option.splits)
  qed
qed

lemma cond_update_fold_distinct:
  assumes step: "\<And>acc e. distinct (map fst acc) \<Longrightarrow> distinct (map fst (step acc e))"
    and "distinct (map fst acc)"
  shows "distinct (map fst (foldl step acc es))"
  using assms(2)
  by (induction es arbitrary: acc) (simp_all add: step)

lemma setIfDefined_map_of:
  "map_of (setIfDefined key parameter m) k =
     (if key = k
      then (case optValue parameter of None \<Rightarrow> map_of m k | Some v \<Rightarrow> Some v)
      else map_of m k)"
  by (auto simp: setIfDefined_def update_conv' split: option.splits)

lemma setIfDefined_distinct:
  "distinct (map fst m) \<Longrightarrow> distinct (map fst (setIfDefined key parameter m))"
  by (simp add: setIfDefined_def distinct_update split: option.splits)

lemma topLevelFields_distinct: "distinct (map snd topLevelFields)"
  by (simp add: topLevelFields_def)

lemma deepFields_distinct: "distinct (map snd deepFields)"
  by (simp add: deepFields_def)

lemma extractMeta_topLevel_lookup:
  assumes "field \<in> set topLevelFields"
  shows "map_of (extractMeta_topLevel p m) (snd field) =
           (case optValue (findParameter (childrenOrEmpty p) (fst field)) of
              None \<Rightarrow> map_of m (snd field) | Some v \<Rightarrow> Some v)"
  unfolding extractMeta_topLevel_def Let_def
  by (rule cond_update_fold_lookup [where key = snd, OF _ topLevelFields_distinct assms])
     (simp add: setIfDefined_map_of)

lemma extractMeta_topLevel_untouched:
  assumes "k \<notin> snd ` set topLevelFields"
  shows "map_of (extractMeta_topLevel p m) k = map_of m k"
  unfolding extractMeta_topLevel_def Let_def
  by (rule cond_update_fold_untouched [where key = snd and
        g = "\<lambda>field. optValue (findParameter (childrenOrEmpty p) (fst field))", OF _ assms])
     (simp add: setIfDefined_map_of)

lemma extractMeta_deep_lookup:
  assumes "field \<in> set deepFields"
  shows "map_of (extractMeta_deep p m) (snd field) =
           (case optValue (firstNamed p (fst field)) of
              None \<Rightarrow> map_of m (snd field) | Some v \<Rightarrow> Some v)"
  unfolding extractMeta_deep_def findParameterDeep_firstNamed
  by (rule cond_update_fold_lookup [where key = snd, OF _ deepFields_distinct assms])
     (simp add: setIfDefined_map_of)

lemma extractMeta_deep_untouched:
  assumes "k \<notin> snd ` set deepFields"
  shows "map_of (extractMeta_deep p m) k = map_of m k"
  unfolding extractMeta_deep_def
  by (rule cond_update_fold_untouched [where key = snd and
        g = "\<lambda>field. optValue (findParameterDeep p (fst field))", OF _ assms])
     (simp add: setIfDefined_map_of)

lemma extractMeta_material_map_of:
  "map_of (extractMeta_material p m) k =
     (if k = ''materialAbsorption'' then
        (case firstNamed p ''Material Settings'' of
           None \<Rightarrow> map_of m k
         | Some ms \<Rightarrow>
             (case optValue (firstNamed ms ''Material Absorption'') of
                None \<Rightarrow> map_of m k | Some v \<Rightarrow> Some v))
      else if k = ''materialRI'' then
        (case firstNamed p ''Material Settings'' of
           None \<Rightarrow> map_of m k
         | Some ms \<Rightarrow>
             (case optValue (firstNamed ms ''Material RI'') of
                None \<Rightarrow> map_of m k | Some v \<Rightarrow> Some v))
      else map_of m k)"
  by (simp add: extractMeta_material_def Let_def setIfDefined_map_of
        findParameterDeep_firstNamed split: option.splits)

lemma extractMeta_dispersant_map_of:
  "map_of (extractMeta_dispersant p m) k =
     (if k = ''dispersantRI'' then
        (case optValue (firstNamed p ''Dispersant RI'') of
           None \<Rightarrow> map_of m k | Some v \<Rightarrow> Some v)
      else if k = ''dispersantViscosity'' then
        (case optValue (firstNamed p ''Dispersant Viscosity (cP)'') of
           None \<Rightarrow> map_of m k | Some v \<Rightarrow> Some v)
      else map_of m k)"
  by (simp add: extractMeta_dispersant_def Let_def setIfDefined_map_of
        findParameterDeep_firstNamed split: option.splits)

lemma extractMeta_distinct: "distinct (map fst (extractMeta p))"
  by (simp add: extractMeta_def extractMeta_dispersant_def extractMeta_material_def
        extractMeta_deep_def extractMeta_topLevel_def Let_def setIfDefined_distinct
        cond_update_fold_distinct split: option.splits)

lemma topLevel_keys:
  assumes "field \<in> set topLevelFields"
  shows "snd field \<notin> snd ` set deepFields"
    and "snd field \<noteq> ''materialRI''" and "snd field \<noteq> ''materialAbsorption''"
    and "snd field \<noteq> ''dispersantViscosity''" and "snd field \<noteq> ''dispersantRI''"
  using assms by (auto simp: topLevelFields_def deepFields_def)

lemma deep_keys:
  assumes "field \<in> set deepFields"
  shows "snd field \<noteq> ''materialRI''" and "snd field \<noteq> ''materialAbsorption''"
    and "snd field \<noteq> ''dispersantViscosity''" and "snd field \<noteq> ''dispersantRI''"
  using assms by (auto simp: deepFields_def)

lemma fixed_keys:
  "''materialRI'' \<notin> snd ` set topLevelFields" "''materialRI'' \<notin> snd ` set deepFields"
  "''materialAbsorption'' \<notin> snd ` set topLevelFields"
  "''materialAbsorption'' \<notin> snd ` set deepFields"
  "''dispersantViscosity'' \<notin> snd ` set topLevelFields"
  "''dispersantViscosity'' \<notin> snd ` set deepFields"
  "''dispersantRI'' \<notin> snd ` set topLevelFields"
  "''dispersantRI'' \<notin> snd ` set deepFields"
  by (simp_all add: topLevelFields_def deepFields_def)

lemma extractMeta_dispersant_untouched:
  "k \<noteq> ''dispersantRI'' \<Longrightarrow> k \<noteq> ''dispersantViscosity'' \<Longrightarrow>
   map_of (extractMeta_dispersant p m) k = map_of m k"
  by (simp add: extractMeta_dispersant_map_of)

lemma extractMeta_material_untouched:
  "k \<noteq> ''materialRI'' \<Longrightarrow> k \<noteq> ''materialAbsorption'' \<Longrightarrow>
   map_of (extractMeta_material p m) k = map_of m k"
  by (simp add: extractMeta_material_map_of)

lemma extractMeta_topLevel_key:
  assumes "field \<in> set topLevelFields"
  shows "map_of (extractMeta p) (snd field) =
           optValue (findParameter (childrenOrEmpty p) (fst field))"
proof -
  note k = topLevel_keys [OF assms]
  have "map_of (extractMeta p) (snd field) =
          map_of (extractMeta_topLevel p []) (snd field)"
    unfolding extractMeta_def
    by (simp only: extractMeta_dispersant_untouched [OF k(5) k(4)]
          extractMeta_material_untouched [OF k(2) k(3)]
          extractMeta_deep_untouched [OF k(1)])
  also have "\<dots> = optValue (findParameter (childrenOrEmpty p) (fst field))"
    by (simp add: extractMeta_topLevel_lookup [OF assms] split: option.split)
  finally show ?thesis .
qed

lemma extractMeta_deep_key:
  assumes "field \<in> set deepFields"
  shows "map_of (extractMeta p) (snd field) = optValue (firstNamed p (fst field))"
proof -
  note k = deep_keys [OF assms]
  have notTop: "snd field \<notin> snd ` set topLevelFields"
    using assms topLevel_keys(1) by (metis imageE imageI)
  have "map_of (extractMeta p) (snd field) =
          map_of (extractMeta_deep p (extractMeta_topLevel p [])) (snd field)"
    unfolding extractMeta_def
    by (simp only: extractMeta_dispersant_untouched [OF k(4) k(3)]
          extractMeta_material_untouched [OF k(1) k(2)])
  also have "\<dots> = optValue (firstNamed p (fst field))"
    by (simp add: extractMeta_deep_lookup [OF assms]
          extractMeta_topLevel_untouched [OF notTop] split: option.split)
  finally show ?thesis .
qed

lemma extractMeta_below_material:
  assumes "k \<notin> snd ` set topLevelFields" and "k \<notin> snd ` set deepFields"
  shows "map_of (extractMeta_deep p (extractMeta_topLevel p [])) k = None"
  by (simp add: extractMeta_deep_untouched [OF assms(2)]
        extractMeta_topLevel_untouched [OF assms(1)])

lemma extractMeta_materialRI:
  "map_of (extractMeta p) ''materialRI'' =
     (case firstNamed p ''Material Settings'' of
        None \<Rightarrow> None
      | Some ms \<Rightarrow> optValue (firstNamed ms ''Material RI''))"
proof -
  have "map_of (extractMeta p) ''materialRI'' =
          map_of (extractMeta_material p (extractMeta_deep p (extractMeta_topLevel p [])))
            ''materialRI''"
    unfolding extractMeta_def by (rule extractMeta_dispersant_untouched) simp_all
  also have "\<dots> = (case firstNamed p ''Material Settings'' of
        None \<Rightarrow> None
      | Some ms \<Rightarrow> optValue (firstNamed ms ''Material RI''))"
    by (simp add: extractMeta_material_map_of
          extractMeta_below_material [OF fixed_keys(1) fixed_keys(2)] split: option.split)
  finally show ?thesis .
qed

lemma extractMeta_materialAbsorption:
  "map_of (extractMeta p) ''materialAbsorption'' =
     (case firstNamed p ''Material Settings'' of
        None \<Rightarrow> None
      | Some ms \<Rightarrow> optValue (firstNamed ms ''Material Absorption''))"
proof -
  have "map_of (extractMeta p) ''materialAbsorption'' =
          map_of (extractMeta_material p (extractMeta_deep p (extractMeta_topLevel p [])))
            ''materialAbsorption''"
    unfolding extractMeta_def by (rule extractMeta_dispersant_untouched) simp_all
  also have "\<dots> = (case firstNamed p ''Material Settings'' of
        None \<Rightarrow> None
      | Some ms \<Rightarrow> optValue (firstNamed ms ''Material Absorption''))"
    by (simp add: extractMeta_material_map_of
          extractMeta_below_material [OF fixed_keys(3) fixed_keys(4)] split: option.split)
  finally show ?thesis .
qed

lemma extractMeta_below_dispersant:
  assumes "k \<notin> snd ` set topLevelFields" and "k \<notin> snd ` set deepFields"
    and "k \<noteq> ''materialRI''" and "k \<noteq> ''materialAbsorption''"
  shows "map_of (extractMeta_material p (extractMeta_deep p (extractMeta_topLevel p []))) k
           = None"
  by (simp only: extractMeta_material_untouched [OF assms(3) assms(4)]
        extractMeta_below_material [OF assms(1) assms(2)])

lemma extractMeta_dispersantViscosity:
  "map_of (extractMeta p) ''dispersantViscosity'' =
     optValue (firstNamed p ''Dispersant Viscosity (cP)'')"
proof -
  have "map_of (extractMeta_material p (extractMeta_deep p (extractMeta_topLevel p [])))
          ''dispersantViscosity'' = None"
    by (rule extractMeta_below_dispersant [OF fixed_keys(5) fixed_keys(6)]) simp_all
  then show ?thesis
    by (simp add: extractMeta_def extractMeta_dispersant_map_of split: option.split)
qed

lemma extractMeta_dispersantRI:
  "map_of (extractMeta p) ''dispersantRI'' = optValue (firstNamed p ''Dispersant RI'')"
proof -
  have "map_of (extractMeta_material p (extractMeta_deep p (extractMeta_topLevel p [])))
          ''dispersantRI'' = None"
    by (rule extractMeta_below_dispersant [OF fixed_keys(7) fixed_keys(8)]) simp_all
  then show ?thesis
    by (simp add: extractMeta_def extractMeta_dispersant_map_of split: option.split)
qed

lemma extractMeta_other_key:
  assumes "k \<notin> snd ` set topLevelFields" and "k \<notin> snd ` set deepFields"
    and "k \<noteq> ''materialRI''" and "k \<noteq> ''materialAbsorption''"
    and "k \<noteq> ''dispersantViscosity''" and "k \<noteq> ''dispersantRI''"
  shows "map_of (extractMeta p) k = None"
  unfolding extractMeta_def
  by (simp only: extractMeta_dispersant_untouched [OF assms(6) assms(5)]
        extractMeta_below_dispersant [OF assms(1) assms(2) assms(3) assms(4)])

lemma firstNamed_SomeD:
  assumes "firstNamed p nm = Some q"
  shows "q \<in> set (preorder p)" and "name q = nm"
  using assms by (auto simp: firstNamed_def find_Some_iff)

lemma firstNamed_None_iff:
  "firstNamed p nm = None \<longleftrightarrow> (\<forall>q \<in> set (preorder p). name q \<noteq> nm)"
  by (auto simp: firstNamed_def find_None_iff)

lemma scoped_value:
  assumes "(case firstNamed p scope of
              None \<Rightarrow> None | Some ms \<Rightarrow> optValue (firstNamed ms nm)) = Some v"
  shows "\<exists>ms q. firstNamed p scope = Some ms \<and> q \<in> set (preorder ms) \<and> name q = nm
           \<and> valueOf q = Some v"
proof -
  from assms obtain ms where ms: "firstNamed p scope = Some ms"
    and v: "optValue (firstNamed ms nm) = Some v"
    by (auto split: option.splits)
  from v obtain q where q: "firstNamed ms nm = Some q" and "valueOf q = Some v"
    by (auto simp: optValue_def split: option.splits)
  with ms firstNamed_SomeD [OF q] show ?thesis by blast
qed

text \<open>
  C4. The keys \<open>materialRI\<close> and \<open>materialAbsorption\<close> hold the value of the
  first node named "Material RI" (respectively "Material Absorption") in the
  subtree of the first node in document order named "Material Settings", and
  nothing else: with no "Material Settings" node both keys are absent; when
  the subtree has no node of the name the key is absent, whatever nodes of
  that name the rest of the tree holds; and a value under the key is always
  the value of a node of that subtree.
\<close>

theorem extractMeta_material_scope:
  "map_of (extractMeta p) ''materialRI'' =
     (case firstNamed p ''Material Settings'' of
        None \<Rightarrow> None
      | Some ms \<Rightarrow> optValue (firstNamed ms ''Material RI''))
   \<and> map_of (extractMeta p) ''materialAbsorption'' =
     (case firstNamed p ''Material Settings'' of
        None \<Rightarrow> None
      | Some ms \<Rightarrow> optValue (firstNamed ms ''Material Absorption''))
   \<and> (firstNamed p ''Material Settings'' = None \<longrightarrow>
        map_of (extractMeta p) ''materialRI'' = None
        \<and> map_of (extractMeta p) ''materialAbsorption'' = None)
   \<and> (\<forall>ms. firstNamed p ''Material Settings'' = Some ms
            \<and> (\<forall>q \<in> set (preorder ms). name q \<noteq> ''Material RI'')
          \<longrightarrow> map_of (extractMeta p) ''materialRI'' = None)
   \<and> (\<forall>ms. firstNamed p ''Material Settings'' = Some ms
            \<and> (\<forall>q \<in> set (preorder ms). name q \<noteq> ''Material Absorption'')
          \<longrightarrow> map_of (extractMeta p) ''materialAbsorption'' = None)
   \<and> (\<forall>v. map_of (extractMeta p) ''materialRI'' = Some v \<longrightarrow>
          (\<exists>ms q. firstNamed p ''Material Settings'' = Some ms \<and> q \<in> set (preorder ms)
             \<and> name q = ''Material RI'' \<and> valueOf q = Some v))
   \<and> (\<forall>v. map_of (extractMeta p) ''materialAbsorption'' = Some v \<longrightarrow>
          (\<exists>ms q. firstNamed p ''Material Settings'' = Some ms \<and> q \<in> set (preorder ms)
             \<and> name q = ''Material Absorption'' \<and> valueOf q = Some v))"
proof -
  note ri = extractMeta_materialRI [of p] and ab = extractMeta_materialAbsorption [of p]
  have a: "firstNamed p ''Material Settings'' = None \<longrightarrow>
        map_of (extractMeta p) ''materialRI'' = None
        \<and> map_of (extractMeta p) ''materialAbsorption'' = None"
    by (simp add: ri ab)
  have b: "\<forall>ms. firstNamed p ''Material Settings'' = Some ms
            \<and> (\<forall>q \<in> set (preorder ms). name q \<noteq> ''Material RI'')
          \<longrightarrow> map_of (extractMeta p) ''materialRI'' = None"
    by (auto simp: ri optValue_def firstNamed_None_iff [symmetric])
  have c: "\<forall>ms. firstNamed p ''Material Settings'' = Some ms
            \<and> (\<forall>q \<in> set (preorder ms). name q \<noteq> ''Material Absorption'')
          \<longrightarrow> map_of (extractMeta p) ''materialAbsorption'' = None"
    by (auto simp: ab optValue_def firstNamed_None_iff [symmetric])
  have d: "\<forall>v. map_of (extractMeta p) ''materialRI'' = Some v \<longrightarrow>
          (\<exists>ms q. firstNamed p ''Material Settings'' = Some ms \<and> q \<in> set (preorder ms)
             \<and> name q = ''Material RI'' \<and> valueOf q = Some v)"
    unfolding ri by (intro allI impI scoped_value)
  have e: "\<forall>v. map_of (extractMeta p) ''materialAbsorption'' = Some v \<longrightarrow>
          (\<exists>ms q. firstNamed p ''Material Settings'' = Some ms \<and> q \<in> set (preorder ms)
             \<and> name q = ''Material Absorption'' \<and> valueOf q = Some v)"
    unfolding ab by (intro allI impI scoped_value)
  from ri ab a b c d e show ?thesis by blast
qed

text \<open>
  C5. \<open>extractMeta\<close> is a total function into flat key/value lists with
  pairwise different keys. Under each key of the three field tables it holds
  exactly the value of the node that the key's lookup finds, and the key is
  absent when the lookup finds no node or a node without a value; no other
  key is ever present. The entries are values of the tree, never a
  placeholder.
\<close>

theorem extractMeta_keys:
  "(\<forall>field \<in> set topLevelFields.
      map_of (extractMeta p) (snd field) =
        optValue (findParameter (childrenOrEmpty p) (fst field)))
   \<and> (\<forall>field \<in> set deepFields.
        map_of (extractMeta p) (snd field) = optValue (firstNamed p (fst field)))
   \<and> map_of (extractMeta p) ''materialRI'' =
       (case firstNamed p ''Material Settings'' of
          None \<Rightarrow> None
        | Some ms \<Rightarrow> optValue (firstNamed ms ''Material RI''))
   \<and> map_of (extractMeta p) ''materialAbsorption'' =
       (case firstNamed p ''Material Settings'' of
          None \<Rightarrow> None
        | Some ms \<Rightarrow> optValue (firstNamed ms ''Material Absorption''))
   \<and> map_of (extractMeta p) ''dispersantViscosity'' =
       optValue (firstNamed p ''Dispersant Viscosity (cP)'')
   \<and> map_of (extractMeta p) ''dispersantRI'' = optValue (firstNamed p ''Dispersant RI'')
   \<and> (\<forall>k. k \<notin> snd ` set topLevelFields \<union> snd ` set deepFields
              \<union> {''materialRI'', ''materialAbsorption'', ''dispersantViscosity'',
                  ''dispersantRI''}
          \<longrightarrow> map_of (extractMeta p) k = None)
   \<and> distinct (map fst (extractMeta p))
   \<and> (\<forall>k v. (k, v) \<in> set (extractMeta p) \<longleftrightarrow> map_of (extractMeta p) k = Some v)"
proof -
  have a: "\<forall>field \<in> set topLevelFields.
      map_of (extractMeta p) (snd field) =
        optValue (findParameter (childrenOrEmpty p) (fst field))"
    by (simp add: extractMeta_topLevel_key)
  have b: "\<forall>field \<in> set deepFields.
        map_of (extractMeta p) (snd field) = optValue (firstNamed p (fst field))"
    by (simp add: extractMeta_deep_key)
  have c: "\<forall>k. k \<notin> snd ` set topLevelFields \<union> snd ` set deepFields
              \<union> {''materialRI'', ''materialAbsorption'', ''dispersantViscosity'',
                  ''dispersantRI''}
          \<longrightarrow> map_of (extractMeta p) k = None"
    by (simp add: extractMeta_other_key)
  have d: "\<forall>k v. (k, v) \<in> set (extractMeta p) \<longleftrightarrow> map_of (extractMeta p) k = Some v"
    by (simp add: extractMeta_distinct)
  from a b c d extractMeta_materialRI [of p] extractMeta_materialAbsorption [of p]
    extractMeta_dispersantViscosity [of p] extractMeta_dispersantRI [of p]
    extractMeta_distinct [of p]
  show ?thesis by blast
qed

lemma exampleRecord_meta:
  "extractMeta exampleRecord =
     [ (''operatorName'', VString ''gbf''), (''zAverage'', VNumber 489),
       (''materialRI'', VNumber 17) ]"
  "extractMeta bareRecord = []"
  by code_simp+

lemma exampleRecord_material:
  "firstNamed exampleRecord ''Material Settings'' =
     Some (ZmesParameter ''Material Settings'' None
             (Some [ZmesParameter ''Material RI'' (Some (VNumber 17)) None]))"
  "firstNamed exampleRecord ''Material RI'' =
     Some (ZmesParameter ''Material RI'' (Some (VNumber 99)) None)"
  "firstNamed exampleRecord ''Material Absorption'' =
     Some (ZmesParameter ''Material Absorption'' (Some (VNumber 5)) None)"
  "firstNamed bareRecord ''Material Settings'' = None"
  by code_simp+

theorem extractMeta_material_scope_witness:
  "firstNamed exampleRecord ''Material Settings'' =
     Some (ZmesParameter ''Material Settings'' None
             (Some [ZmesParameter ''Material RI'' (Some (VNumber 17)) None]))
   \<and> list_all (\<lambda>q. name q \<noteq> ''Material Absorption'')
        (preorder (ZmesParameter ''Material Settings'' None
             (Some [ZmesParameter ''Material RI'' (Some (VNumber (17::int))) None])))
   \<and> firstNamed exampleRecord ''Material RI'' =
       Some (ZmesParameter ''Material RI'' (Some (VNumber 99)) None)
   \<and> firstNamed exampleRecord ''Material Absorption'' =
       Some (ZmesParameter ''Material Absorption'' (Some (VNumber 5)) None)
   \<and> map_of (extractMeta exampleRecord) ''materialRI'' = Some (VNumber 17)
   \<and> map_of (extractMeta exampleRecord) ''materialAbsorption'' = None
   \<and> firstNamed bareRecord ''Material Settings'' = None
   \<and> map_of (extractMeta bareRecord) ''materialRI'' = None
   \<and> map_of (extractMeta bareRecord) ''materialAbsorption'' = None"
  using extractMeta_material_scope [of exampleRecord]
    extractMeta_material_scope [of bareRecord]
  by (simp add: exampleRecord_material exampleRecord_meta)

lemma exampleRecord_fields:
  "(''Operator Name'', ''operatorName'') \<in> set topLevelFields"
  "(''Repeat'', ''repeat'') \<in> set topLevelFields"
  "(''Z-Average (nm)'', ''zAverage'') \<in> set deepFields"
  "findParameter (childrenOrEmpty exampleRecord) ''Operator Name'' =
     Some (ZmesParameter ''Operator Name'' (Some (VString ''gbf'')) None)"
  "findParameter (childrenOrEmpty exampleRecord) ''Repeat'' =
     Some (ZmesParameter ''Repeat'' None None)"
  "firstNamed exampleRecord ''Z-Average (nm)'' =
     Some (ZmesParameter ''Z-Average (nm)'' (Some (VNumber 489)) None)"
  by code_simp+

lemma unknown_key:
  "''unknown'' \<notin> snd ` set topLevelFields" "''unknown'' \<notin> snd ` set deepFields"
  by (simp_all add: topLevelFields_def deepFields_def)

theorem extractMeta_keys_witness:
  "(''Operator Name'', ''operatorName'') \<in> set topLevelFields
   \<and> findParameter (childrenOrEmpty exampleRecord) ''Operator Name'' =
       Some (ZmesParameter ''Operator Name'' (Some (VString ''gbf'')) None)
   \<and> map_of (extractMeta exampleRecord) ''operatorName'' = Some (VString ''gbf'')
   \<and> (''Repeat'', ''repeat'') \<in> set topLevelFields
   \<and> findParameter (childrenOrEmpty exampleRecord) ''Repeat'' =
       Some (ZmesParameter ''Repeat'' None None)
   \<and> map_of (extractMeta exampleRecord) ''repeat'' = None
   \<and> (''Z-Average (nm)'', ''zAverage'') \<in> set deepFields
   \<and> map_of (extractMeta exampleRecord) ''zAverage'' = Some (VNumber 489)
   \<and> ''unknown'' \<notin> snd ` set topLevelFields
   \<and> ''unknown'' \<notin> snd ` set deepFields
   \<and> map_of (extractMeta exampleRecord) ''unknown'' = None
   \<and> extractMeta bareRecord = []"
  using extractMeta_keys [of exampleRecord] extractMeta_keys [of bareRecord]
  by (simp add: exampleRecord_fields exampleRecord_meta unknown_key)

section \<open>Title results\<close>

lemma extractTitle_eq:
  "extractTitle p =
     (case List.find (\<lambda>c. name c = ''Sample Settings'') (childrenOrEmpty p) of
        None \<Rightarrow> []
      | Some sampleSettings \<Rightarrow>
          (case firstNamed sampleSettings ''Sample Name'' of
             None \<Rightarrow> []
           | Some q \<Rightarrow> (case valueOf q of Some (VString s) \<Rightarrow> s | _ \<Rightarrow> [])))"
  by (simp add: extractTitle_def findParameter_def optValue_def findParameterDeep_firstNamed
        split: option.splits zvalue.splits)

text \<open>
  C6. The title is the empty string when no direct child of the root is named
  "Sample Settings". Otherwise the first such child is searched, in document
  order, for a node named "Sample Name", and the title is that node's value
  when the value is a string, and the empty string when there is no such node
  or its value is not a string.
\<close>

theorem extractTitle_sample_name:
  "extractTitle p =
     (case List.find (\<lambda>c. name c = ''Sample Settings'') (childrenOrEmpty p) of
        None \<Rightarrow> []
      | Some sampleSettings \<Rightarrow>
          (case firstNamed sampleSettings ''Sample Name'' of
             None \<Rightarrow> []
           | Some q \<Rightarrow> (case valueOf q of Some (VString s) \<Rightarrow> s | _ \<Rightarrow> [])))
   \<and> ((\<forall>c \<in> set (childrenOrEmpty p). name c \<noteq> ''Sample Settings'') \<longrightarrow>
         extractTitle p = [])
   \<and> (\<forall>i < length (childrenOrEmpty p). \<forall>q s.
         name (childrenOrEmpty p ! i) = ''Sample Settings''
         \<and> (\<forall>j < i. name (childrenOrEmpty p ! j) \<noteq> ''Sample Settings'')
         \<and> firstNamed (childrenOrEmpty p ! i) ''Sample Name'' = Some q
         \<and> valueOf q = Some (VString s)
         \<longrightarrow> extractTitle p = s)"
proof -
  have b: "(\<forall>c \<in> set (childrenOrEmpty p). name c \<noteq> ''Sample Settings'') \<longrightarrow>
         extractTitle p = []"
  proof
    assume "\<forall>c \<in> set (childrenOrEmpty p). name c \<noteq> ''Sample Settings''"
    then have "List.find (\<lambda>c. name c = ''Sample Settings'') (childrenOrEmpty p) = None"
      by (auto simp: find_None_iff)
    then show "extractTitle p = []" by (simp add: extractTitle_eq)
  qed
  have c: "\<forall>i < length (childrenOrEmpty p). \<forall>q s.
         name (childrenOrEmpty p ! i) = ''Sample Settings''
         \<and> (\<forall>j < i. name (childrenOrEmpty p ! j) \<noteq> ''Sample Settings'')
         \<and> firstNamed (childrenOrEmpty p ! i) ''Sample Name'' = Some q
         \<and> valueOf q = Some (VString s)
         \<longrightarrow> extractTitle p = s"
  proof (intro allI impI)
    fix i q s
    assume i: "i < length (childrenOrEmpty p)"
      and h: "name (childrenOrEmpty p ! i) = ''Sample Settings''
         \<and> (\<forall>j < i. name (childrenOrEmpty p ! j) \<noteq> ''Sample Settings'')
         \<and> firstNamed (childrenOrEmpty p ! i) ''Sample Name'' = Some q
         \<and> valueOf q = Some (VString s)"
    have "List.find (\<lambda>c. name c = ''Sample Settings'') (childrenOrEmpty p) =
            Some (childrenOrEmpty p ! i)"
      using i h by (intro find_first_index) auto
    with h show "extractTitle p = s" by (simp add: extractTitle_eq)
  qed
  from extractTitle_eq [of p] b c show ?thesis by blast
qed

lemma exampleRecord_title:
  "extractTitle exampleRecord = ''TEST''" "extractTitle bareRecord = []"
  "list_all (\<lambda>c. name c \<noteq> ''Sample Settings'') (childrenOrEmpty bareRecord)"
  "(3::nat) < length (childrenOrEmpty exampleRecord)"
  "name (childrenOrEmpty exampleRecord ! 3) = ''Sample Settings''"
  "name (childrenOrEmpty exampleRecord ! 0) \<noteq> ''Sample Settings''"
  "name (childrenOrEmpty exampleRecord ! Suc 0) \<noteq> ''Sample Settings''"
  "name (childrenOrEmpty exampleRecord ! 2) \<noteq> ''Sample Settings''"
  "firstNamed (childrenOrEmpty exampleRecord ! 3) ''Sample Name'' =
     Some (ZmesParameter ''Sample Name'' (Some (VString ''TEST'')) None)"
  by code_simp+

theorem extractTitle_sample_name_witness:
  "list_all (\<lambda>c. name c \<noteq> ''Sample Settings'') (childrenOrEmpty bareRecord)
   \<and> extractTitle bareRecord = []
   \<and> (3::nat) < length (childrenOrEmpty exampleRecord)
   \<and> name (childrenOrEmpty exampleRecord ! 3) = ''Sample Settings''
   \<and> name (childrenOrEmpty exampleRecord ! 0) \<noteq> ''Sample Settings''
   \<and> name (childrenOrEmpty exampleRecord ! Suc 0) \<noteq> ''Sample Settings''
   \<and> name (childrenOrEmpty exampleRecord ! 2) \<noteq> ''Sample Settings''
   \<and> firstNamed (childrenOrEmpty exampleRecord ! 3) ''Sample Name'' =
       Some (ZmesParameter ''Sample Name'' (Some (VString ''TEST'')) None)
   \<and> extractTitle exampleRecord = ''TEST''"
  using extractTitle_sample_name [of exampleRecord] extractTitle_sample_name [of bareRecord]
  by (simp add: exampleRecord_title)

section \<open>Settings results\<close>

lemma extractSettings_step_map_of:
  "map_of (extractSettings_step p acc field) k =
     (if snd field = k
      then (case map_option NumberValue
                   (asNumber (optValue (findParameterDeep p (fst field)))) of
              None \<Rightarrow> map_of acc k | Some v \<Rightarrow> Some v)
      else map_of acc k)"
  by (auto simp: extractSettings_step_def update_conv' split: option.splits)

lemma instrumentSettingsFields_distinct: "distinct (map snd instrumentSettingsFields)"
  by (simp add: instrumentSettingsFields_def)

lemma instrument_not_numeric_key: "''instrument'' \<notin> snd ` set instrumentSettingsFields"
  by (simp add: instrumentSettingsFields_def)

lemma numeric_key_not_instrument:
  "field \<in> set instrumentSettingsFields \<Longrightarrow> snd field \<noteq> ''instrument''"
  using instrument_not_numeric_key by (metis imageI)

lemma extractSettings_instrument:
  "map_of (extractSettings p) ''instrument'' =
     Some (InstrumentValue
       \<lparr>manufacturer = ''Malvern Panalytical'',
        model = ''Zetasizer'',
        serialNumber = asString (optValue (firstNamed p ''Instrument Serial Number'')),
        software =
          \<lparr>software_name = ''ZS XPLORER'',
           version =
             asString (optValue (findParameter (childrenOrEmpty p) ''Software Version''))\<rparr>\<rparr>)"
  unfolding extractSettings_def Let_def
  by (subst cond_update_fold_untouched [where key = snd, OF extractSettings_step_map_of
        instrument_not_numeric_key])
     (simp add: findParameterDeep_firstNamed)

lemma extractSettings_numeric:
  assumes "field \<in> set instrumentSettingsFields"
  shows "map_of (extractSettings p) (snd field) =
           map_option NumberValue (asNumber (optValue (firstNamed p (fst field))))"
  unfolding extractSettings_def Let_def
  by (subst cond_update_fold_lookup [where key = snd, OF extractSettings_step_map_of
        instrumentSettingsFields_distinct assms])
     (simp add: findParameterDeep_firstNamed numeric_key_not_instrument [OF assms]
        split: option.split)

lemma extractSettings_other_key:
  assumes "k \<noteq> ''instrument''" and "k \<notin> snd ` set instrumentSettingsFields"
  shows "map_of (extractSettings p) k = None"
  unfolding extractSettings_def Let_def
  by (subst cond_update_fold_untouched [where key = snd, OF extractSettings_step_map_of
        assms(2)])
     (simp add: assms(1))

lemma exampleRecord_settings:
  "extractSettings exampleRecord =
     [ (''instrument'', InstrumentValue
          \<lparr>manufacturer = ''Malvern Panalytical'', model = ''Zetasizer'',
           serialNumber = None,
           software = \<lparr>software_name = ''ZS XPLORER'', version = Some ''4.1.0.82''\<rparr>\<rparr>),
       (''attenuator'', NumberValue 7) ]"
  "extractSettings bareRecord =
     [ (''instrument'', InstrumentValue
          \<lparr>manufacturer = ''Malvern Panalytical'', model = ''Zetasizer'',
           serialNumber = None,
           software = \<lparr>software_name = ''ZS XPLORER'', version = None\<rparr>\<rparr>) ]"
  by code_simp+

text \<open>
  C7. \<open>extractSettings\<close> is total, and under the key \<open>instrument\<close> its result
  always holds the manufacturer "Malvern Panalytical", the model "Zetasizer"
  and the software name "ZS XPLORER". The serial number is present exactly
  when the first node in document order named "Instrument Serial Number"
  holds a string, and is that string; the software version is present exactly
  when the first direct child of the root named "Software Version" holds a
  string, and is that string.
\<close>

theorem extractSettings_identity:
  "map_of (extractSettings p) ''instrument'' =
     Some (InstrumentValue
       \<lparr>manufacturer = ''Malvern Panalytical'',
        model = ''Zetasizer'',
        serialNumber = asString (optValue (firstNamed p ''Instrument Serial Number'')),
        software =
          \<lparr>software_name = ''ZS XPLORER'',
           version =
             asString (optValue (findParameter (childrenOrEmpty p) ''Software Version''))\<rparr>\<rparr>)"
  by (rule extractSettings_instrument)

theorem extractSettings_identity_witness:
  "firstNamed bareRecord ''Instrument Serial Number'' = None
   \<and> findParameter (childrenOrEmpty bareRecord) ''Software Version'' = None
   \<and> map_of (extractSettings bareRecord) ''instrument'' =
       Some (InstrumentValue
         \<lparr>manufacturer = ''Malvern Panalytical'', model = ''Zetasizer'',
          serialNumber = None,
          software = \<lparr>software_name = ''ZS XPLORER'', version = None\<rparr>\<rparr>)
   \<and> map_of (extractSettings exampleRecord) ''instrument'' =
       Some (InstrumentValue
         \<lparr>manufacturer = ''Malvern Panalytical'', model = ''Zetasizer'',
          serialNumber = None,
          software = \<lparr>software_name = ''ZS XPLORER'', version = Some ''4.1.0.82''\<rparr>\<rparr>)"
proof -
  have a: "firstNamed bareRecord ''Instrument Serial Number'' = None"
    and b: "findParameter (childrenOrEmpty bareRecord) ''Software Version'' = None"
    and c: "firstNamed exampleRecord ''Instrument Serial Number'' = None"
    and d: "findParameter (childrenOrEmpty exampleRecord) ''Software Version'' =
              Some (ZmesParameter ''Software Version'' (Some (VString ''4.1.0.82'')) None)"
    by code_simp+
  show ?thesis
    using extractSettings_identity [of bareRecord] extractSettings_identity [of exampleRecord]
    by (simp add: a b c d optValue_def asString_def)
qed

text \<open>
  C8. For every entry of the table of numeric settings, the settings key holds
  the value of the first node in document order with the entry's parameter
  name exactly when that value is a number, and is absent otherwise: when no
  node has the name, and equally when the first such node has no value or a
  value that is not a number (a string is not converted). Beside
  \<open>instrument\<close> no other key is present.
\<close>

theorem extractSettings_numeric_keys:
  "(\<forall>field \<in> set instrumentSettingsFields.
      map_of (extractSettings p) (snd field) =
        map_option NumberValue (asNumber (optValue (firstNamed p (fst field)))))
   \<and> (\<forall>field \<in> set instrumentSettingsFields.
        firstNamed p (fst field) = None \<longrightarrow> map_of (extractSettings p) (snd field) = None)
   \<and> (\<forall>field \<in> set instrumentSettingsFields. \<forall>q.
        firstNamed p (fst field) = Some q \<and> asNumber (valueOf q) = None
        \<longrightarrow> map_of (extractSettings p) (snd field) = None)
   \<and> (\<forall>field \<in> set instrumentSettingsFields. \<forall>q n.
        firstNamed p (fst field) = Some q \<and> valueOf q = Some (VNumber n)
        \<longrightarrow> map_of (extractSettings p) (snd field) = Some (NumberValue n))
   \<and> (\<forall>k. k \<noteq> ''instrument'' \<and> k \<notin> snd ` set instrumentSettingsFields
          \<longrightarrow> map_of (extractSettings p) k = None)"
proof -
  have a: "\<forall>field \<in> set instrumentSettingsFields.
      map_of (extractSettings p) (snd field) =
        map_option NumberValue (asNumber (optValue (firstNamed p (fst field))))"
    by (simp add: extractSettings_numeric)
  have b: "\<forall>field \<in> set instrumentSettingsFields.
        firstNamed p (fst field) = None \<longrightarrow> map_of (extractSettings p) (snd field) = None"
    by (simp add: extractSettings_numeric optValue_def asNumber_def)
  have c: "\<forall>field \<in> set instrumentSettingsFields. \<forall>q.
        firstNamed p (fst field) = Some q \<and> asNumber (valueOf q) = None
        \<longrightarrow> map_of (extractSettings p) (snd field) = None"
    by (simp add: extractSettings_numeric optValue_def)
  have d: "\<forall>field \<in> set instrumentSettingsFields. \<forall>q n.
        firstNamed p (fst field) = Some q \<and> valueOf q = Some (VNumber n)
        \<longrightarrow> map_of (extractSettings p) (snd field) = Some (NumberValue n)"
    by (simp add: extractSettings_numeric optValue_def asNumber_def)
  have e: "\<forall>k. k \<noteq> ''instrument'' \<and> k \<notin> snd ` set instrumentSettingsFields
          \<longrightarrow> map_of (extractSettings p) k = None"
    by (simp add: extractSettings_other_key)
  from a b c d e show ?thesis by blast
qed

lemma exampleRecord_numeric:
  "(''Attenuator'', ''attenuator'') \<in> set instrumentSettingsFields"
  "(''Number Of Runs'', ''numberOfRuns'') \<in> set instrumentSettingsFields"
  "(''Run Duration (s)'', ''runDuration'') \<in> set instrumentSettingsFields"
  "firstNamed exampleRecord ''Attenuator'' =
     Some (ZmesParameter ''Attenuator'' (Some (VNumber 7)) None)"
  "firstNamed exampleRecord ''Number Of Runs'' =
     Some (ZmesParameter ''Number Of Runs'' (Some (VString ''35'')) None)"
  "firstNamed exampleRecord ''Run Duration (s)'' = None"
  "asNumber (Some (VString ''35'') :: int zvalue option) = None"
  "''unknown'' \<notin> snd ` set instrumentSettingsFields"
  by code_simp+

theorem extractSettings_numeric_keys_witness:
  "(''Attenuator'', ''attenuator'') \<in> set instrumentSettingsFields
   \<and> firstNamed exampleRecord ''Attenuator'' =
       Some (ZmesParameter ''Attenuator'' (Some (VNumber 7)) None)
   \<and> map_of (extractSettings exampleRecord) ''attenuator'' = Some (NumberValue 7)
   \<and> (''Number Of Runs'', ''numberOfRuns'') \<in> set instrumentSettingsFields
   \<and> firstNamed exampleRecord ''Number Of Runs'' =
       Some (ZmesParameter ''Number Of Runs'' (Some (VString ''35'')) None)
   \<and> asNumber (Some (VString ''35'') :: int zvalue option) = None
   \<and> map_of (extractSettings exampleRecord) ''numberOfRuns'' = None
   \<and> (''Run Duration (s)'', ''runDuration'') \<in> set instrumentSettingsFields
   \<and> firstNamed exampleRecord ''Run Duration (s)'' = None
   \<and> map_of (extractSettings exampleRecord) ''runDuration'' = None
   \<and> ''unknown'' \<notin> snd ` set instrumentSettingsFields
   \<and> map_of (extractSettings exampleRecord) ''unknown'' = None"
  using extractSettings_numeric_keys [of exampleRecord]
  by (simp add: exampleRecord_numeric exampleRecord_settings)

section \<open>Conversion results\<close>

lemma fromZmes_step_spectra:
  "spectra (fromZmes_step analysis r) =
     spectra analysis @
       (case buildVariables (parameters r) of
          None \<Rightarrow> []
        | Some vs \<Rightarrow>
            [\<lparr>variables = vs, spectrum_id = guid r, title = extractTitle (parameters r),
              dataType = ''Size measurement'', meta = extractMeta (parameters r),
              settings = Some (extractSettings (parameters r))\<rparr>])"
  by (simp add: fromZmes_step_def pushSpectrum_def setLastSettings_def split: option.splits)

lemma fromZmes_fold_spectra:
  "spectra (foldl fromZmes_step analysis records) =
     spectra analysis @
       concat (map (\<lambda>r. case buildVariables (parameters r) of
          None \<Rightarrow> []
        | Some vs \<Rightarrow>
            [\<lparr>variables = vs, spectrum_id = guid r, title = extractTitle (parameters r),
              dataType = ''Size measurement'', meta = extractMeta (parameters r),
              settings = Some (extractSettings (parameters r))\<rparr>]) records)"
  by (induction records arbitrary: analysis) (simp_all add: fromZmes_step_spectra)

lemma ids_of_entries:
  "map spectrum_id
     (concat (map (\<lambda>r. case buildVariables (parameters r) of
          None \<Rightarrow> []
        | Some vs \<Rightarrow>
            [\<lparr>variables = vs, spectrum_id = guid r, title = extractTitle (parameters r),
              dataType = ''Size measurement'', meta = extractMeta (parameters r),
              settings = Some (extractSettings (parameters r))\<rparr>]) records)) =
   map guid (filter (\<lambda>r. buildVariables (parameters r) \<noteq> None) records)"
  by (induction records) (auto split: option.splits)

text \<open>
  C2. \<open>fromZmes\<close> goes through the records in file order. A record whose
  variable set is "not found" adds nothing to the analysis; every other record
  adds exactly one entry, made of its variable set, its GUID as id, its title,
  the data type "Size measurement", its meta record and its settings. So the
  ids of the entries are the GUIDs of the surviving records, in file order,
  and there are as many entries as surviving records.
\<close>

theorem fromZmes_entries:
  "spectra (fromZmes records) =
     concat (map (\<lambda>r. case buildVariables (parameters r) of
          None \<Rightarrow> []
        | Some vs \<Rightarrow>
            [\<lparr>variables = vs, spectrum_id = guid r, title = extractTitle (parameters r),
              dataType = ''Size measurement'', meta = extractMeta (parameters r),
              settings = Some (extractSettings (parameters r))\<rparr>]) records)
   \<and> map spectrum_id (spectra (fromZmes records)) =
       map guid (filter (\<lambda>r. buildVariables (parameters r) \<noteq> None) records)
   \<and> length (spectra (fromZmes records)) =
       length (filter (\<lambda>r. buildVariables (parameters r) \<noteq> None) records)"
proof -
  have a: "spectra (fromZmes records) =
     concat (map (\<lambda>r. case buildVariables (parameters r) of
          None \<Rightarrow> []
        | Some vs \<Rightarrow>
            [\<lparr>variables = vs, spectrum_id = guid r, title = extractTitle (parameters r),
              dataType = ''Size measurement'', meta = extractMeta (parameters r),
              settings = Some (extractSettings (parameters r))\<rparr>]) records)"
    by (simp add: fromZmes_def fromZmes_fold_spectra newAnalysis_def)
  have b: "map spectrum_id (spectra (fromZmes records)) =
       map guid (filter (\<lambda>r. buildVariables (parameters r) \<noteq> None) records)"
    unfolding a by (rule ids_of_entries)
  have "length (map spectrum_id (spectra (fromZmes records))) =
       length (map guid (filter (\<lambda>r. buildVariables (parameters r) \<noteq> None) records))"
    by (simp only: b)
  then have c: "length (spectra (fromZmes records)) =
       length (filter (\<lambda>r. buildVariables (parameters r) \<noteq> None) records)"
    by simp
  from a b c show ?thesis by blast
qed

lemma exampleFile_ids:
  "map spectrum_id (spectra (fromZmes exampleFile)) =
     [''f5e0a56f-3426-427a-91ca-731e963cc86b'', ''00000000-0000-0000-0000-000000000004'']"
  by code_simp

theorem fromZmes_entries_witness:
  "map spectrum_id (spectra (fromZmes exampleFile)) =
     [''f5e0a56f-3426-427a-91ca-731e963cc86b'', ''00000000-0000-0000-0000-000000000004'']
   \<and> buildVariables shadowedRecord = None \<and> buildVariables bareRecord = None
   \<and> buildVariables exampleRecord = Some exampleVariables
   \<and> length (spectra (fromZmes exampleFile)) = 2"
  using fromZmes_entries [of exampleFile]
  by (simp add: exampleFile_ids shadowedRecord_facts bareRecord_variables
        exampleRecord_variables exampleFile_def)

end
